theory Spec2Isabelle
  imports Main "HOL-Library.Word"
begin

unbundle bit_operations_syntax

section \<open>Python text\<close>

text \<open>
  A Python \<open>str\<close> is a sequence of Unicode code points; \<open>len\<close> and slicing count code
  points. It is modelled as a list of code points, so that \<open>s[:n]\<close> is \<open>take n s\<close> and
  \<open>len(s)\<close> is \<open>length s\<close>. ASCII literals of the source are written \<open>u ''...''\<close>.
\<close>

type_synonym pstr = "nat list"

definition u :: "string \<Rightarrow> pstr" where
  "u s = map of_char s"

text \<open>
  The code points \<open>str.isspace\<close>, \<open>str.strip()\<close> and \<open>str.split()\<close> treat as white space.
\<close>

definition py_isspace :: "nat \<Rightarrow> bool" where
  "py_isspace c \<longleftrightarrow>
     (9 \<le> c \<and> c \<le> 13) \<or> (28 \<le> c \<and> c \<le> 32) \<or> c = 133 \<or> c = 160 \<or> c = 5760 \<or>
     (8192 \<le> c \<and> c \<le> 8202) \<or> c = 8232 \<or> c = 8233 \<or> c = 8239 \<or> c = 8287 \<or> c = 12288"

definition py_strip :: "pstr \<Rightarrow> pstr" where
  "py_strip s = rev (dropWhile py_isspace (rev (dropWhile py_isspace s)))"

text \<open>
  \<open>str.lower()\<close> on the ASCII and Latin-1 letters; Python's table also maps letters of other
  scripts, which are left as they are here.
\<close>

definition lower_cp :: "nat \<Rightarrow> nat" where
  "lower_cp c =
     (if (65 \<le> c \<and> c \<le> 90) \<or> (192 \<le> c \<and> c \<le> 222 \<and> c \<noteq> 215) then c + 32 else c)"

definition py_lower :: "pstr \<Rightarrow> pstr" where
  "py_lower s = map lower_cp s"

definition startswith :: "pstr \<Rightarrow> pstr \<Rightarrow> bool" where
  "startswith s p \<longleftrightarrow> take (length p) s = p"

text \<open>\<open>sub in s\<close>: the substring test.\<close>

fun py_in :: "pstr \<Rightarrow> pstr \<Rightarrow> bool" where
  "py_in sub [] = (sub = [])"
| "py_in sub (c # cs) = (startswith (c # cs) sub \<or> py_in sub cs)"

definition py_join :: "pstr \<Rightarrow> pstr list \<Rightarrow> pstr" where
  "py_join sep xs = (case xs of [] \<Rightarrow> [] | x # rest \<Rightarrow> x @ concat (map (\<lambda>y. sep @ y) rest))"

text \<open>
  \<open>s.split(sep)\<close> for a non-empty separator (every separator of the source is a non-empty
  literal): the pieces between the occurrences of \<open>sep\<close>, found from the left. \<open>cur\<close> holds
  the piece being read, reversed.
\<close>

fun split_from :: "pstr \<Rightarrow> pstr \<Rightarrow> pstr \<Rightarrow> pstr list" where
  "split_from sep cur [] = [rev cur]"
| "split_from sep cur (c # cs) =
     (if startswith (c # cs) sep then rev cur # split_from sep [] (drop (length sep - 1) cs)
      else split_from sep (c # cur) cs)"

definition py_split :: "pstr \<Rightarrow> pstr \<Rightarrow> pstr list" where
  "py_split s sep = split_from sep [] s"

text \<open>\<open>s.split(sep, 1)\<close>: at most one split, at the first occurrence.\<close>

fun split1_from :: "pstr \<Rightarrow> pstr \<Rightarrow> pstr \<Rightarrow> pstr list" where
  "split1_from sep cur [] = [rev cur]"
| "split1_from sep cur (c # cs) =
     (if startswith (c # cs) sep then [rev cur, drop (length sep - 1) cs]
      else split1_from sep (c # cur) cs)"

definition py_split1 :: "pstr \<Rightarrow> pstr \<Rightarrow> pstr list" where
  "py_split1 s sep = split1_from sep [] s"

text \<open>\<open>s.split()\<close>: the maximal runs of non-space code points.\<close>

fun split_ws_from :: "pstr \<Rightarrow> pstr \<Rightarrow> pstr list" where
  "split_ws_from cur [] = (if cur = [] then [] else [rev cur])"
| "split_ws_from cur (c # cs) =
     (if py_isspace c then (if cur = [] then [] else [rev cur]) @ split_ws_from [] cs
      else split_ws_from (c # cur) cs)"

definition py_split_ws :: "pstr \<Rightarrow> pstr list" where
  "py_split_ws s = split_ws_from [] s"

section \<open>Identity of a job: \<open>generate_job_id\<close>\<close>

text \<open>\<open>str.encode()\<close>: UTF-8, as a list of bytes.\<close>

definition utf8_cp :: "nat \<Rightarrow> 8 word list" where
  "utf8_cp c =
     (if c < 128 then [of_nat c]
      else if c < 2048 then [of_nat (192 + c div 64), of_nat (128 + c mod 64)]
      else if c < 65536 then
        [of_nat (224 + c div 4096), of_nat (128 + (c div 64) mod 64), of_nat (128 + c mod 64)]
      else
        [of_nat (240 + (c div 262144) mod 8), of_nat (128 + (c div 4096) mod 64),
         of_nat (128 + (c div 64) mod 64), of_nat (128 + c mod 64)])"

definition encode :: "pstr \<Rightarrow> 8 word list" where
  "encode s = concat (map utf8_cp s)"

text \<open>\<open>hashlib.sha256\<close>, after FIPS 180-4; the constants are written in decimal.\<close>

definition sha_K :: "32 word list" where
  "sha_K =
    [1116352408, 1899447441, 3049323471, 3921009573, 961987163, 1508970993, 2453635748,
     2870763221, 3624381080, 310598401, 607225278, 1426881987, 1925078388, 2162078206,
     2614888103, 3248222580, 3835390401, 4022224774, 264347078, 604807628, 770255983,
     1249150122, 1555081692, 1996064986, 2554220882, 2821834349, 2952996808, 3210313671,
     3336571891, 3584528711, 113926993, 338241895, 666307205, 773529912, 1294757372,
     1396182291, 1695183700, 1986661051, 2177026350, 2456956037, 2730485921, 2820302411,
     3259730800, 3345764771, 3516065817, 3600352804, 4094571909, 275423344, 430227734,
     506948616, 659060556, 883997877, 958139571, 1322822218, 1537002063, 1747873779,
     1955562222, 2024104815, 2227730452, 2361852424, 2428436474, 2756734187, 3204031479,
     3329325298]"

type_synonym sha_state =
  "32 word \<times> 32 word \<times> 32 word \<times> 32 word \<times> 32 word \<times> 32 word \<times> 32 word \<times> 32 word"

definition sha_H0 :: sha_state where
  "sha_H0 = (1779033703, 3144134277, 1013904242, 2773480762,
             1359893119, 2600822924, 528734635, 1541459225)"

definition rotr :: "nat \<Rightarrow> 32 word \<Rightarrow> 32 word" where
  "rotr n x = drop_bit n x OR push_bit (32 - n) x"

definition small_sigma0 :: "32 word \<Rightarrow> 32 word" where
  "small_sigma0 x = rotr 7 x XOR rotr 18 x XOR drop_bit 3 x"

definition small_sigma1 :: "32 word \<Rightarrow> 32 word" where
  "small_sigma1 x = rotr 17 x XOR rotr 19 x XOR drop_bit 10 x"

definition big_sigma0 :: "32 word \<Rightarrow> 32 word" where
  "big_sigma0 x = rotr 2 x XOR rotr 13 x XOR rotr 22 x"

definition big_sigma1 :: "32 word \<Rightarrow> 32 word" where
  "big_sigma1 x = rotr 6 x XOR rotr 11 x XOR rotr 25 x"

definition sha_ch :: "32 word \<Rightarrow> 32 word \<Rightarrow> 32 word \<Rightarrow> 32 word" where
  "sha_ch x y z = (x AND y) XOR (NOT x AND z)"

definition sha_maj :: "32 word \<Rightarrow> 32 word \<Rightarrow> 32 word \<Rightarrow> 32 word" where
  "sha_maj x y z = (x AND y) XOR (x AND z) XOR (y AND z)"

text \<open>
  Padding: the byte \<open>0x80\<close>, zero bytes up to 56 modulo 64, and the length of the message in
  bits as 8 big-endian bytes.
\<close>

definition sha_pad :: "8 word list \<Rightarrow> 8 word list" where
  "sha_pad m =
     m @ [0x80] @ replicate ((119 - length m mod 64) mod 64) 0 @
     map (\<lambda>i. ucast (drop_bit (8 * (7 - i)) (8 * of_nat (length m) :: 64 word))) [0..<8]"

fun be_words :: "8 word list \<Rightarrow> 32 word list" where
  "be_words (a # b # c # d # rest) =
     (push_bit 24 (ucast a) OR push_bit 16 (ucast b) OR push_bit 8 (ucast c) OR ucast d)
       # be_words rest"
| "be_words _ = []"

text \<open>The message schedule: 16 words of the block, extended to 64.\<close>

definition sha_extend :: "32 word list \<Rightarrow> 32 word list" where
  "sha_extend w =
     (let n = length w
      in w @ [small_sigma1 (w ! (n - 2)) + w ! (n - 7) + small_sigma0 (w ! (n - 15)) + w ! (n - 16)])"

fun sha_extend_times :: "nat \<Rightarrow> 32 word list \<Rightarrow> 32 word list" where
  "sha_extend_times 0 w = w"
| "sha_extend_times (Suc k) w = sha_extend_times k (sha_extend w)"

definition sha_schedule :: "32 word list \<Rightarrow> 32 word list" where
  "sha_schedule block = sha_extend_times 48 block"

fun sha_round :: "32 word \<times> 32 word \<Rightarrow> sha_state \<Rightarrow> sha_state" where
  "sha_round (k, w) (a, b, c, d, e, f, g, h) =
     (let t1 = h + big_sigma1 e + sha_ch e f g + k + w;
          t2 = big_sigma0 a + sha_maj a b c
      in (t1 + t2, a, b, c, d + t1, e, f, g))"

fun sha_add :: "sha_state \<Rightarrow> sha_state \<Rightarrow> sha_state" where
  "sha_add (a, b, c, d, e, f, g, h) (a', b', c', d', e', f', g', h') =
     (a + a', b + b', c + c', d + d', e + e', f + f', g + g', h + h')"

definition sha_compress :: "sha_state \<Rightarrow> 32 word list \<Rightarrow> sha_state" where
  "sha_compress st block = sha_add st (fold sha_round (zip sha_K (sha_schedule block)) st)"

fun sha_blocks :: "nat \<Rightarrow> sha_state \<Rightarrow> 32 word list \<Rightarrow> sha_state" where
  "sha_blocks 0 st ws = st"
| "sha_blocks (Suc n) st ws = sha_blocks n (sha_compress st (take 16 ws)) (drop 16 ws)"

definition sha256 :: "8 word list \<Rightarrow> sha_state" where
  "sha256 m = (let ws = be_words (sha_pad m) in sha_blocks (length ws div 16) sha_H0 ws)"

text \<open>\<open>hexdigest()\<close>: 64 lower-case hexadecimal digits.\<close>

definition hex_digit :: "nat \<Rightarrow> nat" where
  "hex_digit n = (if n < 10 then 48 + n else 87 + n)"

definition hex32 :: "32 word \<Rightarrow> pstr" where
  "hex32 w = map (\<lambda>i. hex_digit (unat (drop_bit (4 * (7 - i)) w AND 15))) [0..<8]"

fun hexdigest :: "sha_state \<Rightarrow> pstr" where
  "hexdigest (a, b, c, d, e, f, g, h) =
     hex32 a @ hex32 b @ hex32 c @ hex32 d @ hex32 e @ hex32 f @ hex32 g @ hex32 h"

text \<open>
  \<^verbatim>\<open>content = f"{url}:{title}:{company}".lower()\<close>,
  \<^verbatim>\<open>return hashlib.sha256(content.encode()).hexdigest()[:16]\<close>
\<close>

definition generate_job_id :: "pstr \<Rightarrow> pstr \<Rightarrow> pstr \<Rightarrow> pstr" where
  "generate_job_id url title company =
     (let content = py_lower (url @ u '':'' @ title @ u '':'' @ company)
      in take 16 (hexdigest (sha256 (encode content))))"

section \<open>The document tree of BeautifulSoup\<close>

text \<open>
  The parsers work on the tree that \<open>BeautifulSoup(html, 'html.parser')\<close> builds. The
  HTML parser is a library: it is a parameter \<open>bs\<close> of every function that calls it, and
  the tree it returns is this datatype. Strings of other kinds than \<open>NavigableString\<close>
  (comments, declarations) are \<open>Comment\<close>: \<open>get_text\<close> leaves them out.
\<close>

datatype node =
  Tag pstr "(pstr \<times> pstr) list" "node list"
| NavigableString pstr
| Comment pstr

type_synonym html_parser = "pstr \<Rightarrow> node"

text \<open>The parser that answers every text with the same tree, for the examples.\<close>

definition parsed_as :: "node \<Rightarrow> html_parser" where
  "parsed_as doc html = doc"

text \<open>
  \<open>.descendants\<close>, in document order; each element comes with its \<open>.parents\<close>, nearest
  first.
\<close>

fun descendants :: "node list \<Rightarrow> node \<Rightarrow> (node \<times> node list) list" where
  "descendants anc (Tag nm at cs) =
     concat (map (\<lambda>c. (c, Tag nm at cs # anc) # descendants (Tag nm at cs # anc) c) cs)"
| "descendants anc (NavigableString s) = []"
| "descendants anc (Comment s) = []"

fun is_tag_named :: "pstr list \<Rightarrow> node \<Rightarrow> bool" where
  "is_tag_named names (Tag nm at cs) = (nm \<in> set names)"
| "is_tag_named names _ = False"

text \<open>\<open>tag.get(key, '')\<close>\<close>

fun tag_get :: "node \<Rightarrow> pstr \<Rightarrow> pstr" where
  "tag_get (Tag nm at cs) key = (case map_of at key of None \<Rightarrow> [] | Some v \<Rightarrow> v)"
| "tag_get _ key = []"

text \<open>
  \<open>soup.find_all('a', href=re.compile(...))\<close>: the \<open>a\<close> elements whose \<open>href\<close> is present
  and is matched somewhere by the pattern; \<open>pat\<close> is the pattern's \<open>search\<close>.
\<close>

fun is_job_link :: "(pstr \<Rightarrow> bool) \<Rightarrow> node \<Rightarrow> bool" where
  "is_job_link pat (Tag nm at cs) =
     (nm = u ''a'' \<and> (case map_of at (u ''href'') of None \<Rightarrow> False | Some v \<Rightarrow> pat v))"
| "is_job_link pat _ = False"

definition find_all_a :: "(pstr \<Rightarrow> bool) \<Rightarrow> node \<Rightarrow> (node \<times> node list) list" where
  "find_all_a pat soup = filter (\<lambda>(n, anc). is_job_link pat n) (descendants [] soup)"

text \<open>\<open>tag.find([names])\<close>: the first descendant element with one of the names.\<close>

definition tag_find :: "node \<Rightarrow> pstr list \<Rightarrow> node option" where
  "tag_find n names = find (is_tag_named names) (map fst (descendants [] n))"

text \<open>\<open>tag.find_parent([names])\<close>, from the element's chain of parents.\<close>

definition find_parent :: "node list \<Rightarrow> pstr list \<Rightarrow> node option" where
  "find_parent anc names = find (is_tag_named names) anc"

fun all_strings :: "node \<Rightarrow> pstr list" where
  "all_strings (Tag nm at cs) = concat (map all_strings cs)"
| "all_strings (NavigableString s) = [s]"
| "all_strings (Comment s) = []"

text \<open>
  \<open>tag.get_text(sep, strip=...)\<close>: with \<open>strip\<close>, every string is stripped and the empty
  ones are dropped.
\<close>

definition get_text :: "node \<Rightarrow> pstr \<Rightarrow> bool \<Rightarrow> pstr" where
  "get_text n sep strip =
     py_join sep (if strip then filter (\<lambda>s. s \<noteq> []) (map py_strip (all_strings n))
                  else all_strings n)"

subsection \<open>The patterns of the source\<close>

text \<open>\<open>pattern.search(s)\<close>: the pattern matches at the start of some suffix of \<open>s\<close>.\<close>

fun re_search :: "(pstr \<Rightarrow> bool) \<Rightarrow> pstr \<Rightarrow> bool" where
  "re_search m [] = m []"
| "re_search m (c # cs) = (m (c # cs) \<or> re_search m cs)"

text \<open>\<open>.*\<close> followed by \<open>k\<close>: \<open>.\<close> is any code point but the newline.\<close>

fun dotstar_then :: "(pstr \<Rightarrow> bool) \<Rightarrow> pstr \<Rightarrow> bool" where
  "dotstar_then k [] = k []"
| "dotstar_then k (c # cs) = (k (c # cs) \<or> (c \<noteq> 10 \<and> dotstar_then k cs))"

definition lit_then :: "pstr \<Rightarrow> (pstr \<Rightarrow> bool) \<Rightarrow> pstr \<Rightarrow> bool" where
  "lit_then p k s \<longleftrightarrow> startswith s p \<and> k (drop (length p) s)"

text \<open>The end of a pattern: whatever follows is accepted.\<close>

definition re_end :: "pstr \<Rightarrow> bool" where
  "re_end s = True"

text \<open>\<^verbatim>\<open>r'linkedin\.com/comm/jobs/view'\<close>\<close>

definition re_linkedin :: "pstr \<Rightarrow> bool" where
  "re_linkedin = re_search (lit_then (u ''linkedin.com/comm/jobs/view'') re_end)"

text \<open>\<^verbatim>\<open>r'indeed\.com.*jk='\<close> (local_app.py)\<close>

definition re_indeed :: "pstr \<Rightarrow> bool" where
  "re_indeed = re_search (lit_then (u ''indeed.com'') (dotstar_then (lit_then (u ''jk='') re_end)))"

text \<open>\<^verbatim>\<open>r'indeed\.com.*jk=|indeed\.com.*vjk='\<close> (email_scanner/handler.py)\<close>

definition re_indeed_vjk :: "pstr \<Rightarrow> bool" where
  "re_indeed_vjk =
     re_search (\<lambda>s. lit_then (u ''indeed.com'') (dotstar_then (lit_then (u ''jk='') re_end)) s \<or>
                     lit_then (u ''indeed.com'') (dotstar_then (lit_then (u ''vjk='') re_end)) s)"

text \<open>\<^verbatim>\<open>r'indeed\.com.*(jk=|vjk=)[a-f0-9]+'\<close> (app/parsers/indeed.py)\<close>

definition is_hex_lower :: "nat \<Rightarrow> bool" where
  "is_hex_lower c \<longleftrightarrow> (97 \<le> c \<and> c \<le> 102) \<or> (48 \<le> c \<and> c \<le> 57)"

definition hex_plus :: "pstr \<Rightarrow> bool" where
  "hex_plus s = (case s of [] \<Rightarrow> False | c # cs \<Rightarrow> is_hex_lower c)"

definition re_indeed_key :: "pstr \<Rightarrow> bool" where
  "re_indeed_key =
     re_search (lit_then (u ''indeed.com'')
       (dotstar_then (\<lambda>s. lit_then (u ''jk='') hex_plus s \<or> lit_then (u ''vjk='') hex_plus s)))"

text \<open>
  \<^verbatim>\<open>re.match(r'^\d+\.?\d*\s*\d', line)\<close>, the rating lines: one function per position of
  the pattern, the rest of the pattern as its continuation. \<open>\d\<close> is taken as the ASCII
  digits (Python also accepts the decimal digits of other scripts).
\<close>

definition is_digit :: "nat \<Rightarrow> bool" where
  "is_digit c \<longleftrightarrow> 48 \<le> c \<and> c \<le> 57"

fun rating_spaces :: "pstr \<Rightarrow> bool" where
  "rating_spaces [] = False"
| "rating_spaces (c # cs) = (is_digit c \<or> (py_isspace c \<and> rating_spaces cs))"

fun rating_digits2 :: "pstr \<Rightarrow> bool" where
  "rating_digits2 [] = False"
| "rating_digits2 (c # cs) = (rating_spaces (c # cs) \<or> (is_digit c \<and> rating_digits2 cs))"

definition rating_dot :: "pstr \<Rightarrow> bool" where
  "rating_dot s = (rating_digits2 s \<or> (case s of [] \<Rightarrow> False | c # cs \<Rightarrow> c = 46 \<and> rating_digits2 cs))"

fun rating_digits1 :: "pstr \<Rightarrow> bool" where
  "rating_digits1 [] = False"
| "rating_digits1 (c # cs) = (is_digit c \<and> (rating_dot cs \<or> rating_digits1 cs))"

definition re_rating :: "pstr \<Rightarrow> bool" where
  "re_rating line = rating_digits1 line"

section \<open>Job records\<close>

text \<open>
  The dictionaries the parsers build. A key that a parser does not set is \<open>None\<close>;
  \<open>description\<close> is also \<open>None\<close> where the source stores Python's \<open>None\<close>.
\<close>

record job =
  job_id :: pstr
  title :: pstr
  company :: pstr
  location :: pstr
  url :: pstr
  source :: pstr
  raw_text :: pstr
  created_at :: "pstr option"
  email_date :: "pstr option"
  description :: "pstr option"
  status :: "pstr option"
  score :: "int option"

section \<open>The LinkedIn and Indeed parsers of local_app.py\<close>

definition link_title :: "node \<Rightarrow> pstr" where
  "link_title link =
     (case tag_find link [u ''h2'', u ''h3'', u ''strong'', u ''span''] of
        Some title_elem \<Rightarrow> get_text title_elem [] True
      | None \<Rightarrow> get_text link [] True)"

text \<open>
  The separator of \<open>raw_text.split(...)\<close> in local_app.py is the two code points U+00AC
  U+2211, as the file has them.
\<close>

definition local_sep :: pstr where
  "local_sep = [172, 8721]"

text \<open>The body of the loop of \<open>parse_linkedin_jobs\<close>, after the title check.\<close>

definition linkedin_job :: "pstr \<Rightarrow> pstr \<Rightarrow> pstr \<Rightarrow> node list \<Rightarrow> job" where
  "linkedin_job email_dt href ttl anc =
     (let parent = find_parent anc [u ''td'', u ''div'', u ''tr''];
          raw = (case parent of None \<Rightarrow> ttl | Some p \<Rightarrow> get_text p (u '' '') True);
          parts = py_split raw local_sep;
          comp = (case parent of None \<Rightarrow> []
                  | Some p \<Rightarrow> if length parts > 1 then take 100 (py_strip (parts ! 1)) else []);
          loc = (case parent of None \<Rightarrow> []
                 | Some p \<Rightarrow> if length parts > 2 then take 100 (py_strip (parts ! 2)) else [])
      in \<lparr>job_id = generate_job_id href ttl comp, title = take 200 ttl, company = comp,
          location = loc, url = href, source = u ''linkedin'', raw_text = take 1000 raw,
          created_at = Some email_dt, email_date = None, description = None,
          status = None, score = None\<rparr>)"

fun linkedin_loop :: "pstr \<Rightarrow> (node \<times> node list) list \<Rightarrow> pstr set \<Rightarrow> job list" where
  "linkedin_loop email_dt [] seen = []"
| "linkedin_loop email_dt ((link, anc) # rest) seen =
     (let href = tag_get link (u ''href'')
      in if href \<in> seen then linkedin_loop email_dt rest seen
         else let ttl = link_title link
              in if ttl = [] \<or> length ttl < 3
                 then linkedin_loop email_dt rest (insert href seen)
                 else linkedin_job email_dt href ttl anc
                        # linkedin_loop email_dt rest (insert href seen))"

definition parse_linkedin_jobs :: "html_parser \<Rightarrow> pstr \<Rightarrow> pstr \<Rightarrow> job list" where
  "parse_linkedin_jobs bs html email_dt =
     (let soup = bs html; job_links = find_all_a re_linkedin soup
      in linkedin_loop email_dt job_links {})"

text \<open>
  \<^verbatim>\<open>lines = [l.strip() for l in parent.get_text('\n').split('\n') if l.strip()]\<close>
\<close>

definition indeed_lines :: "node \<Rightarrow> pstr list" where
  "indeed_lines p = filter (\<lambda>l. l \<noteq> []) (map py_strip (py_split (get_text p [10] False) [10]))"

definition indeed_job :: "pstr \<Rightarrow> pstr \<Rightarrow> pstr \<Rightarrow> node list \<Rightarrow> job" where
  "indeed_job email_dt href ttl anc =
     (let parent = find_parent anc [u ''td'', u ''div'', u ''tr''];
          raw = (case parent of None \<Rightarrow> ttl | Some p \<Rightarrow> get_text p (u '' '') True);
          comp = (case parent of None \<Rightarrow> []
                  | Some p \<Rightarrow> let lines = indeed_lines p
                               in if length lines > 1 then take 100 (lines ! 1) else []);
          loc = (case parent of None \<Rightarrow> []
                 | Some p \<Rightarrow> let lines = indeed_lines p
                              in if length lines > 2 then take 100 (lines ! 2) else [])
      in \<lparr>job_id = generate_job_id href ttl comp, title = take 200 ttl, company = comp,
          location = loc, url = href, source = u ''indeed'', raw_text = take 1000 raw,
          created_at = Some email_dt, email_date = None, description = None,
          status = None, score = None\<rparr>)"

fun indeed_loop :: "pstr \<Rightarrow> (node \<times> node list) list \<Rightarrow> pstr set \<Rightarrow> job list" where
  "indeed_loop email_dt [] seen = []"
| "indeed_loop email_dt ((link, anc) # rest) seen =
     (let href = tag_get link (u ''href'')
      in if href \<in> seen then indeed_loop email_dt rest seen
         else let ttl = get_text link [] True
              in if ttl = [] \<or> length ttl < 3
                 then indeed_loop email_dt rest (insert href seen)
                 else indeed_job email_dt href ttl anc
                        # indeed_loop email_dt rest (insert href seen))"

definition parse_indeed_jobs :: "html_parser \<Rightarrow> pstr \<Rightarrow> pstr \<Rightarrow> job list" where
  "parse_indeed_jobs bs html email_dt =
     (let soup = bs html; job_links = find_all_a re_indeed soup
      in indeed_loop email_dt job_links {})"

section \<open>The parsers of email_scanner/handler.py\<close>

text \<open>
  The handler imports \<open>generate_job_id\<close> and \<open>JobStatus\<close> from the package \<open>shared\<close>, whose
  module utils.py is not in the sources: both are parameters.
\<close>

record shared =
  shared_generate_job_id :: "pstr \<Rightarrow> pstr \<Rightarrow> pstr \<Rightarrow> pstr"
  JobStatus_NEW :: pstr

text \<open>The separator of the handler is the middle dot U+00B7.\<close>

definition handler_sep :: pstr where
  "handler_sep = [183]"

definition handler_linkedin_job :: "shared \<Rightarrow> pstr \<Rightarrow> pstr \<Rightarrow> pstr \<Rightarrow> node list \<Rightarrow> job" where
  "handler_linkedin_job sh email_dt href ttl anc =
     (let parent = find_parent anc [u ''td'', u ''div'', u ''tr''];
          raw = (case parent of None \<Rightarrow> ttl | Some p \<Rightarrow> get_text p (u '' '') True);
          parts = py_split raw handler_sep;
          comp = (case parent of None \<Rightarrow> []
                  | Some p \<Rightarrow> if length parts \<ge> 2 then take 100 (py_strip (parts ! 1)) else []);
          loc = (case parent of None \<Rightarrow> []
                 | Some p \<Rightarrow> if length parts \<ge> 3 then take 100 (py_strip (parts ! 2)) else [])
      in \<lparr>job_id = shared_generate_job_id sh href ttl comp, title = take 200 ttl,
          company = comp, location = loc, url = href, source = u ''linkedin'',
          raw_text = take 1000 raw, created_at = None, email_date = Some email_dt,
          description = None, status = Some (JobStatus_NEW sh), score = Some 0\<rparr>)"

fun handler_linkedin_loop ::
  "shared \<Rightarrow> pstr \<Rightarrow> (node \<times> node list) list \<Rightarrow> pstr set \<Rightarrow> job list" where
  "handler_linkedin_loop sh email_dt [] seen_urls = []"
| "handler_linkedin_loop sh email_dt ((link, anc) # rest) seen_urls =
     (let href = tag_get link (u ''href'')
      in if href \<in> seen_urls then handler_linkedin_loop sh email_dt rest seen_urls
         else let ttl = link_title link
              in if ttl = [] \<or> length ttl < 3
                 then handler_linkedin_loop sh email_dt rest (insert href seen_urls)
                 else handler_linkedin_job sh email_dt href ttl anc
                        # handler_linkedin_loop sh email_dt rest (insert href seen_urls))"

definition handler_parse_linkedin_jobs ::
  "shared \<Rightarrow> html_parser \<Rightarrow> pstr \<Rightarrow> pstr \<Rightarrow> job list" where
  "handler_parse_linkedin_jobs sh bs html email_dt =
     (let soup = bs html; job_links = find_all_a re_linkedin soup
      in handler_linkedin_loop sh email_dt job_links {})"

definition handler_indeed_job :: "shared \<Rightarrow> pstr \<Rightarrow> pstr \<Rightarrow> pstr \<Rightarrow> node list \<Rightarrow> job" where
  "handler_indeed_job sh email_dt href ttl anc =
     (let parent = find_parent anc [u ''td'', u ''div'', u ''tr''];
          raw = (case parent of None \<Rightarrow> ttl | Some p \<Rightarrow> get_text p (u '' '') True);
          comp = (case parent of None \<Rightarrow> []
                  | Some p \<Rightarrow> let lines = indeed_lines p
                               in if length lines \<ge> 2 then take 100 (lines ! 1) else []);
          loc = (case parent of None \<Rightarrow> []
                 | Some p \<Rightarrow> let lines = indeed_lines p
                              in if length lines \<ge> 3 then take 100 (lines ! 2) else [])
      in \<lparr>job_id = shared_generate_job_id sh href ttl comp, title = take 200 ttl,
          company = comp, location = loc, url = href, source = u ''indeed'',
          raw_text = take 1000 raw, created_at = None, email_date = Some email_dt,
          description = None, status = Some (JobStatus_NEW sh), score = Some 0\<rparr>)"

fun handler_indeed_loop ::
  "shared \<Rightarrow> pstr \<Rightarrow> (node \<times> node list) list \<Rightarrow> pstr set \<Rightarrow> job list" where
  "handler_indeed_loop sh email_dt [] seen_urls = []"
| "handler_indeed_loop sh email_dt ((link, anc) # rest) seen_urls =
     (let href = tag_get link (u ''href'')
      in if href \<in> seen_urls then handler_indeed_loop sh email_dt rest seen_urls
         else let ttl = get_text link [] True
              in if ttl = [] \<or> length ttl < 3
                 then handler_indeed_loop sh email_dt rest (insert href seen_urls)
                 else handler_indeed_job sh email_dt href ttl anc
                        # handler_indeed_loop sh email_dt rest (insert href seen_urls))"

definition handler_parse_indeed_jobs ::
  "shared \<Rightarrow> html_parser \<Rightarrow> pstr \<Rightarrow> pstr \<Rightarrow> job list" where
  "handler_parse_indeed_jobs sh bs html email_dt =
     (let soup = bs html; job_links = find_all_a re_indeed_vjk soup
      in handler_indeed_loop sh email_dt job_links {})"

section \<open>\<open>IndeedParser.parse\<close> of app/parsers/indeed.py\<close>

text \<open>
  \<open>IndeedParser\<close> inherits \<open>clean_job_url\<close>, \<open>clean_text_field\<close> and \<open>generate_job_id\<close> from
  \<open>BaseParser\<close>, whose module app/parsers/base.py is not in the sources: the three are
  parameters.
\<close>

record base_parser =
  clean_job_url :: "pstr \<Rightarrow> pstr"
  clean_text_field :: "pstr \<Rightarrow> pstr"
  base_generate_job_id :: "pstr \<Rightarrow> pstr \<Rightarrow> pstr \<Rightarrow> pstr"

definition exclude_keywords :: "pstr list" where
  "exclude_keywords =
     [u ''unsubscribe'', u ''help'', u ''view all'', u ''see all'', u ''homepage'',
      u ''messages'', u ''notifications'', u ''easily apply'', u ''responsive employer'']"

text \<open>
  \<^verbatim>\<open>lines = [l.strip() for l in text.split('\n') if l.strip() and len(l.strip()) > 2]\<close>
  with \<^verbatim>\<open>text = parent.get_text('\n', strip=True)\<close>
\<close>

definition card_lines :: "node \<Rightarrow> pstr list" where
  "card_lines p =
     filter (\<lambda>l. l \<noteq> [] \<and> length l > 2) (map py_strip (py_split (get_text p [10] True) [10]))"

definition is_location_line :: "pstr \<Rightarrow> bool" where
  "is_location_line l \<longleftrightarrow>
     py_in (u ''remote'') (py_lower l) \<or> py_in (u '','') l \<or>
     list_ex (\<lambda>state. py_in state l) [u ''CA'', u ''NY'', u ''TX'', u ''FL'']"

text \<open>The loop over \<open>k\<close>: the first location line among the next two lines.\<close>

definition scan_location :: "pstr list \<Rightarrow> nat \<Rightarrow> pstr" where
  "scan_location lines j =
     (case filter (\<lambda>k. is_location_line (lines ! k)) [j + 1..<min (j + 3) (length lines)] of
        [] \<Rightarrow> []
      | k # ks \<Rightarrow> take 100 (lines ! k))"

text \<open>
  The loop over \<open>j\<close>: the first of the next three lines that is no rating line and has no
  dollar sign is the company.
\<close>

definition scan_company :: "pstr list \<Rightarrow> nat \<Rightarrow> pstr \<times> pstr" where
  "scan_company lines i =
     (case filter (\<lambda>j. \<not> re_rating (lines ! j) \<and> \<not> py_in (u ''$'') (lines ! j))
             [i + 1..<min (i + 4) (length lines)] of
        [] \<Rightarrow> ([], [])
      | j # js \<Rightarrow> (take 100 (lines ! j), scan_location lines j))"

text \<open>
  The loop over \<open>i\<close>: it stops at the first line that is no rating line, contains the title
  and has a line after it.
\<close>

definition scan_card :: "pstr \<Rightarrow> pstr list \<Rightarrow> pstr \<times> pstr" where
  "scan_card ttl lines =
     (case filter (\<lambda>i. \<not> re_rating (lines ! i) \<and> py_in ttl (lines ! i) \<and> i + 1 < length lines)
             [0..<length lines] of
        [] \<Rightarrow> ([], [])
      | i # is \<Rightarrow> scan_company lines i)"

text \<open>
  \<open>company\<close> and \<open>location\<close> as the scan of the card leaves them: both empty without a
  container, or when no line qualifies.
\<close>

definition card_fields :: "pstr \<Rightarrow> node list \<Rightarrow> pstr \<times> pstr" where
  "card_fields full_text anc =
     (case find_parent anc [u ''td'', u ''div'', u ''li''] of
        None \<Rightarrow> ([], [])
      | Some p \<Rightarrow> scan_card full_text (card_lines p))"

definition card_job :: "base_parser \<Rightarrow> pstr \<Rightarrow> pstr \<Rightarrow> pstr \<Rightarrow> node list \<Rightarrow> job" where
  "card_job base email_dt href full_text anc =
     (let parent = find_parent anc [u ''td'', u ''div'', u ''li''];
          found = card_fields full_text anc;
          raw = (case parent of None \<Rightarrow> full_text
                 | Some p \<Rightarrow> take 1000 (py_join (u '' '') (take 6 (card_lines p))));
          ttl = clean_text_field base full_text;
          comp = (if fst found \<noteq> [] then clean_text_field base (fst found) else u ''Unknown'');
          loc = clean_text_field base (snd found)
      in \<lparr>job_id = base_generate_job_id base href ttl comp, title = take 200 ttl,
          company = take 100 comp, location = take 100 loc, url = href, source = u ''indeed'',
          raw_text = raw, created_at = Some email_dt, email_date = Some email_dt,
          description = None, status = None, score = None\<rparr>)"

fun card_loop ::
  "base_parser \<Rightarrow> pstr \<Rightarrow> (node \<times> node list) list \<Rightarrow> pstr set \<Rightarrow> job list" where
  "card_loop base email_dt [] seen = []"
| "card_loop base email_dt ((link, anc) # rest) seen =
     (let href = clean_job_url base (tag_get link (u ''href''))
      in if href = [] \<or> href \<in> seen then card_loop base email_dt rest seen
         else let full_text = py_join (u '' '') (py_split_ws (get_text link (u '' '') True))
              in if list_ex (\<lambda>keyword. py_in keyword (py_lower full_text)) exclude_keywords
                 then card_loop base email_dt rest seen
                 else if full_text = [] \<or> length full_text < 5
                 then card_loop base email_dt rest seen
                 else card_job base email_dt href full_text anc
                        # card_loop base email_dt rest (insert href seen))"

definition IndeedParser_parse :: "base_parser \<Rightarrow> html_parser \<Rightarrow> pstr \<Rightarrow> pstr \<Rightarrow> job list" where
  "IndeedParser_parse base bs html email_dt =
     (let soup = bs html; job_links = find_all_a re_indeed_key soup
      in card_loop base email_dt job_links {})"

section \<open>WeWorkRemotely: \<open>fetch_wwr_jobs\<close>\<close>

text \<open>
  An \<open>xml.etree.ElementTree.Element\<close>: tag, text (or \<open>None\<close>) and children. The truth value
  of an element is that of \<open>len(element)\<close>: an element without children is false.
\<close>

datatype element = Element pstr "pstr option" "element list"

fun elem_tag :: "element \<Rightarrow> pstr" where
  "elem_tag (Element t x cs) = t"

fun elem_text :: "element \<Rightarrow> pstr option" where
  "elem_text (Element t x cs) = x"

fun elem_children :: "element \<Rightarrow> element list" where
  "elem_children (Element t x cs) = cs"

text \<open>\<open>root.findall('.//item')\<close>: the descendants named \<open>item\<close>, in document order.\<close>

fun elem_descendants :: "element \<Rightarrow> element list" where
  "elem_descendants (Element t x cs) = concat (map (\<lambda>c. c # elem_descendants c) cs)"

definition findall_items :: "element \<Rightarrow> element list" where
  "findall_items root = filter (\<lambda>e. elem_tag e = u ''item'') (elem_descendants root)"

text \<open>\<open>item.find(tag)\<close>: the first child with the tag.\<close>

definition elem_find :: "element \<Rightarrow> pstr \<Rightarrow> element option" where
  "elem_find e t = find (\<lambda>c. elem_tag c = t) (elem_children e)"

text \<open>\<open>not elem\<close> for the result of \<open>find\<close>.\<close>

fun elem_not :: "element option \<Rightarrow> bool" where
  "elem_not None = True"
| "elem_not (Some e) = (elem_children e = [])"

text \<open>
  A \<open>datetime\<close> is naive (wall-clock microseconds) or aware (the instant in microseconds
  and the offset). Comparing a naive with an aware one raises \<open>TypeError\<close>: \<open>None\<close>.
\<close>

datatype datetime = Naive int | Aware int int

fun dt_less :: "datetime \<Rightarrow> datetime \<Rightarrow> bool option" where
  "dt_less (Naive a) (Naive b) = Some (a < b)"
| "dt_less (Aware a oa) (Aware b ob) = Some (a < b)"
| "dt_less _ _ = None"

text \<open>
  The library calls of \<open>fetch_wwr_jobs\<close> are parameters: the HTML parser,
  \<open>email.utils.parsedate_to_datetime\<close> (\<open>None\<close> when it raises), \<open>datetime.isoformat\<close>, and
  \<open>urlopen\<close> followed by \<open>ET.fromstring\<close> (\<open>None\<close> when either raises). The clock
  \<open>datetime.now()\<close> is read as one naive instant \<open>now\<close> during a scan.
\<close>

record pylib =
  BeautifulSoup :: html_parser
  parsedate_to_datetime :: "pstr \<Rightarrow> datetime option"
  isoformat :: "datetime \<Rightarrow> pstr"
  fetch_feed :: "pstr \<Rightarrow> element option"

definition WWR_FEEDS :: "pstr list" where
  "WWR_FEEDS =
     [u ''https://weworkremotely.com/categories/remote-programming-jobs.rss'',
      u ''https://weworkremotely.com/categories/remote-devops-sysadmin-jobs.rss'',
      u ''https://weworkremotely.com/categories/remote-full-stack-programming-jobs.rss'',
      u ''https://weworkremotely.com/remote-jobs.rss'']"

definition timedelta_days :: "int \<Rightarrow> int" where
  "timedelta_days d = d * 86400000000"

text \<open>
  The date of an item: \<open>None\<close> when the item is skipped as old, otherwise the text for
  \<open>created_at\<close>. Every exception of the \<open>try\<close> block is swallowed by its \<open>except: pass\<close>.
\<close>

definition wwr_pub_date :: "pylib \<Rightarrow> int \<Rightarrow> datetime \<Rightarrow> element option \<Rightarrow> pstr option" where
  "wwr_pub_date lib now cutoff pub_date_elem =
     (case pub_date_elem of
        None \<Rightarrow> Some (isoformat lib (Naive now))
      | Some e \<Rightarrow>
          (case elem_text e of
             None \<Rightarrow> Some (isoformat lib (Naive now))
           | Some t \<Rightarrow>
               if t = [] then Some (isoformat lib (Naive now))
               else (case parsedate_to_datetime lib t of
                       None \<Rightarrow> Some (isoformat lib (Naive now))
                     | Some dt \<Rightarrow>
                         (case dt_less dt cutoff of
                            None \<Rightarrow> Some (isoformat lib (Naive now))
                          | Some True \<Rightarrow> None
                          | Some False \<Rightarrow> Some (isoformat lib dt)))))"

text \<open>\<open>or ''\<close> and \<open>or title\<close>: \<open>None\<close> and the empty string are false.\<close>

fun or_str :: "pstr option \<Rightarrow> pstr \<Rightarrow> pstr" where
  "or_str None d = d"
| "or_str (Some s) d = (if s = [] then d else s)"

text \<open>The body of the loop over the items: \<open>None\<close> for \<open>continue\<close>.\<close>

definition wwr_item :: "pylib \<Rightarrow> int \<Rightarrow> datetime \<Rightarrow> element \<Rightarrow> job option" where
  "wwr_item lib now cutoff item =
     (let title_elem = elem_find item (u ''title'');
          link_elem = elem_find item (u ''link'');
          desc_elem = elem_find item (u ''description'');
          pub_date_elem = elem_find item (u ''pubDate'')
      in if elem_not title_elem \<or> elem_not link_elem then None
         else
           let ttl = or_str (case title_elem of None \<Rightarrow> None | Some e \<Rightarrow> elem_text e) [];
               href = or_str (case link_elem of None \<Rightarrow> None | Some e \<Rightarrow> elem_text e) [];
               desc0 = (case desc_elem of None \<Rightarrow> Some [] | Some e \<Rightarrow> elem_text e);
               parts = py_split1 ttl (u '':'');
               comp = (if py_in (u '':'') ttl then py_strip (parts ! 0) else []);
               job_title = (if py_in (u '':'') ttl then py_strip (parts ! 1) else ttl)
           in case wwr_pub_date lib now cutoff pub_date_elem of
                None \<Rightarrow> None
              | Some pub_date \<Rightarrow>
                  let desc = (if or_str desc0 [] \<noteq> []
                              then Some (take 2000
                                     (get_text (BeautifulSoup lib (or_str desc0 [])) (u '' '') True))
                              else desc0)
                  in Some \<lparr>job_id = generate_job_id href job_title comp,
                           title = take 200 job_title, company = take 100 comp,
                           location = u ''Remote'', url = href, source = u ''weworkremotely'',
                           raw_text = or_str desc ttl, created_at = Some pub_date,
                           email_date = None, description = desc, status = None,
                           score = None\<rparr>)"



definition wwr_feed :: "pylib \<Rightarrow> int \<Rightarrow> datetime \<Rightarrow> pstr \<Rightarrow> job list" where
  "wwr_feed lib now cutoff feed_url =
     (case fetch_feed lib feed_url of
        None \<Rightarrow> []
      | Some root \<Rightarrow> List.map_filter (wwr_item lib now cutoff) (findall_items root))"

definition fetch_wwr_jobs :: "pylib \<Rightarrow> int \<Rightarrow> int \<Rightarrow> job list" where
  "fetch_wwr_jobs lib now days_back =
     (let cutoff = Naive (now - timedelta_days days_back)
      in concat (map (wwr_feed lib now cutoff) WWR_FEEDS))"

section \<open>Scanning the mailbox\<close>

text \<open>
  The Gmail service is a parameter: for a query, the list of its messages, or \<open>None\<close> when
  the \<open>list\<close> call raises; for a message, the pair of \<open>email_date\<close> and the HTML body that
  \<open>get_email_body\<close> extracts, or \<open>None\<close> when fetching or decoding it raises. The text
  \<open>after_date\<close> is what \<open>strftime\<close> gives for the start of the window.
\<close>

type_synonym gmail = "pstr \<Rightarrow> (pstr \<times> pstr) option list option"

text \<open>
  local_app.py: one \<open>try\<close> around the whole query, so that an exception at one message
  ends the query; the jobs of the messages before it are already in \<open>all_jobs\<close>.
\<close>

fun scan_messages :: "(pstr \<Rightarrow> pstr \<Rightarrow> job list) \<Rightarrow> (pstr \<times> pstr) option list \<Rightarrow> job list" where
  "scan_messages parse [] = []"
| "scan_messages parse (None # rest) = []"
| "scan_messages parse (Some (email_dt, html) # rest) =
     parse html email_dt @ scan_messages parse rest"

definition scan_query :: "html_parser \<Rightarrow> gmail \<Rightarrow> pstr \<Rightarrow> job list" where
  "scan_query bs service query =
     (case service query of
        None \<Rightarrow> []
      | Some messages \<Rightarrow>
          scan_messages
            (if py_in (u ''linkedin'') query then parse_linkedin_jobs bs else parse_indeed_jobs bs)
            messages)"

definition scan_emails :: "html_parser \<Rightarrow> gmail \<Rightarrow> pstr \<Rightarrow> job list" where
  "scan_emails bs service after_date =
     (let queries =
        [u ''from:jobs-noreply@linkedin.com after:'' @ after_date,
         u ''from:jobalerts-noreply@linkedin.com after:'' @ after_date,
         u ''from:noreply@indeed.com subject:job after:'' @ after_date]
      in concat (map (scan_query bs service) queries))"

text \<open>
  email_scanner/handler.py: a \<open>try\<close> around each message, and messages without a body are
  skipped.
\<close>

fun handler_scan_messages ::
  "(pstr \<Rightarrow> pstr \<Rightarrow> job list) \<Rightarrow> (pstr \<times> pstr) option list \<Rightarrow> job list" where
  "handler_scan_messages parse [] = []"
| "handler_scan_messages parse (None # rest) = handler_scan_messages parse rest"
| "handler_scan_messages parse (Some (email_dt, html) # rest) =
     (if html = [] then handler_scan_messages parse rest
      else parse html email_dt @ handler_scan_messages parse rest)"

definition handler_scan_query :: "shared \<Rightarrow> html_parser \<Rightarrow> gmail \<Rightarrow> pstr \<Rightarrow> job list" where
  "handler_scan_query sh bs service query =
     (case service query of
        None \<Rightarrow> []
      | Some messages \<Rightarrow>
          handler_scan_messages
            (if py_in (u ''linkedin'') query then handler_parse_linkedin_jobs sh bs
             else handler_parse_indeed_jobs sh bs)
            messages)"

definition handler_scan_emails :: "shared \<Rightarrow> html_parser \<Rightarrow> gmail \<Rightarrow> pstr \<Rightarrow> job list" where
  "handler_scan_emails sh bs service after_date =
     (let queries =
        [u ''from:jobs-noreply@linkedin.com after:'' @ after_date,
         u ''from:jobalerts-noreply@linkedin.com after:'' @ after_date,
         u ''from:noreply@indeed.com subject:job after:'' @ after_date,
         u ''from:alert@indeed.com after:'' @ after_date]
      in concat (map (handler_scan_query sh bs service) queries))"

section \<open>The job store of local_app.py\<close>

text \<open>
  The table \<open>jobs\<close>: a map from the primary key \<open>job_id\<close> to the other columns; \<open>None\<close> is
  SQL's \<open>NULL\<close>. The statements of \<open>api_capture\<close> also name a column \<open>description\<close>, which
  the row has here.
\<close>

record row =
  col_title :: "pstr option"
  col_company :: "pstr option"
  col_location :: "pstr option"
  col_url :: "pstr option"
  col_source :: "pstr option"
  col_status :: "pstr option"
  col_score :: "int option"
  col_analysis :: "pstr option"
  col_cover_letter :: "pstr option"
  col_notes :: "pstr option"
  col_raw_text :: "pstr option"
  col_created_at :: "pstr option"
  col_updated_at :: "pstr option"
  col_description :: "pstr option"

type_synonym db = "pstr \<Rightarrow> row option"

text \<open>
  The \<open>INSERT\<close> of \<open>api_scan\<close>: the columns it does not name take their defaults, \<open>'new'\<close> for
  \<open>status\<close>, 0 for \<open>score\<close>, \<open>NULL\<close> otherwise. \<open>now\<close> is \<open>datetime.now().isoformat()\<close>.
\<close>

definition scan_row :: "job \<Rightarrow> pstr \<Rightarrow> row" where
  "scan_row j now =
     \<lparr>col_title = Some (title j), col_company = Some (company j),
      col_location = Some (location j), col_url = Some (url j), col_source = Some (source j),
      col_status = Some (u ''new''), col_score = Some 0, col_analysis = None,
      col_cover_letter = None, col_notes = None, col_raw_text = Some (raw_text j),
      col_created_at = created_at j, col_updated_at = Some now, col_description = None\<rparr>"

text \<open>The loop \<open>for job in jobs\<close> of \<open>api_scan\<close>, on the table and \<open>new_count\<close>.\<close>

fun scan_store :: "pstr \<Rightarrow> job list \<Rightarrow> db \<times> nat \<Rightarrow> db \<times> nat" where
  "scan_store now [] (conn, new_count) = (conn, new_count)"
| "scan_store now (j # jobs) (conn, new_count) =
     (case conn (job_id j) of
        Some existing \<Rightarrow> scan_store now jobs (conn, new_count)
      | None \<Rightarrow> scan_store now jobs (conn(job_id j \<mapsto> scan_row j now), new_count + 1))"

text \<open>\<open>api_scan\<close> returns the table and the two counts of its JSON answer, found and new.\<close>

definition api_scan :: "html_parser \<Rightarrow> gmail \<Rightarrow> pstr \<Rightarrow> pstr \<Rightarrow> db \<Rightarrow> db \<times> nat \<times> nat" where
  "api_scan bs service after_date now conn =
     (let jobs = scan_emails bs service after_date;
          (conn', new_count) = scan_store now jobs (conn, 0)
      in (conn', length jobs, new_count))"

text \<open>\<open>update_job\<close>: the \<open>PATCH\<close> route, with which the user sets the status of a job.\<close>

definition update_job :: "pstr \<Rightarrow> pstr option \<Rightarrow> pstr \<Rightarrow> db \<Rightarrow> db" where
  "update_job jid new_status now conn =
     (case conn jid of
        None \<Rightarrow> conn
      | Some r \<Rightarrow> conn(jid \<mapsto> r\<lparr>col_status := new_status, col_updated_at := Some now\<rparr>))"

section \<open>The capture endpoint\<close>



text \<open>\<open>data.get(key, default)\<close>\<close>

fun data_get :: "pstr option \<Rightarrow> pstr \<Rightarrow> pstr" where
  "data_get None d = d"
| "data_get (Some v) d = v"



section \<open>The scanner Lambda\<close>

text \<open>
  Modelled from the spec: \<open>JobModel\<close> (shared/utils.py is not in the sources). The spec's
  store exposes \<open>get(id) -> Record | absent\<close> and an insert keyed by the job identity:
  the table maps the pair of user id and job id to the stored job, \<open>job_exists\<close> is the
  lookup and \<open>put_job\<close> stores the job under its own \<open>job_id\<close>.
\<close>

type_synonym table = "pstr \<times> pstr \<Rightarrow> job option"

definition job_exists :: "table \<Rightarrow> pstr \<Rightarrow> pstr \<Rightarrow> bool" where
  "job_exists model user_id jid \<longleftrightarrow> model (user_id, jid) \<noteq> None"

definition put_job :: "table \<Rightarrow> pstr \<Rightarrow> job \<Rightarrow> table" where
  "put_job model user_id j = model((user_id, job_id j) \<mapsto> j)"

fun store_new :: "pstr \<Rightarrow> job list \<Rightarrow> table \<times> nat \<Rightarrow> table \<times> nat" where
  "store_new user_id [] (model, new_count) = (model, new_count)"
| "store_new user_id (j # jobs) (model, new_count) =
     (if \<not> job_exists model user_id (job_id j)
      then store_new user_id jobs (put_job model user_id j, new_count + 1)
      else store_new user_id jobs (model, new_count))"

datatype lambda_answer = Status200 nat nat pstr | Status500

text \<open>
  \<open>lambda_handler\<close>: \<open>service\<close> is \<open>None\<close> when \<open>get_gmail_service\<close> raises; \<open>event_user_id\<close> is
  the key \<open>user_id\<close> of the event.
\<close>

definition lambda_handler ::
  "shared \<Rightarrow> html_parser \<Rightarrow> gmail option \<Rightarrow> pstr \<Rightarrow> pstr option \<Rightarrow> pstr \<Rightarrow> table
     \<Rightarrow> table \<times> lambda_answer" where
  "lambda_handler sh bs service after_date event_user_id DEFAULT_USER_ID model =
     (let user_id = data_get event_user_id DEFAULT_USER_ID
      in case service of
           None \<Rightarrow> (model, Status500)
         | Some gm \<Rightarrow>
             let jobs = handler_scan_emails sh bs gm after_date;
                 (model', new_count) = store_new user_id jobs (model, 0)
             in (model', Status200 (length jobs) new_count user_id))"

section \<open>The parser registry and \<open>parse_email\<close>\<close>

text \<open>
  Of the five parser classes only \<open>IndeedParser\<close> is in the sources; the \<open>parse\<close> methods of
  the registered classes are parameters.
\<close>

type_synonym parser = "pstr \<Rightarrow> pstr \<Rightarrow> job list"

record parser_classes =
  LinkedInParser :: parser
  IndeedParser :: parser
  GreenhouseParser :: parser
  WellfoundParser :: parser
  WeWorkRemotelyParser :: parser

definition PARSER_REGISTRY :: "parser_classes \<Rightarrow> (pstr \<times> parser) list" where
  "PARSER_REGISTRY cls =
     [(u ''linkedin'', LinkedInParser cls), (u ''indeed'', IndeedParser cls),
      (u ''greenhouse'', GreenhouseParser cls), (u ''wellfound'', WellfoundParser cls),
      (u ''weworkremotely'', WeWorkRemotelyParser cls)]"

definition get_parser :: "parser_classes \<Rightarrow> pstr \<Rightarrow> parser option" where
  "get_parser cls src = map_of (PARSER_REGISTRY cls) src"

definition detect_source :: "pstr \<Rightarrow> pstr option" where
  "detect_source html =
     (let html_lower = py_lower html;
          patterns =
            [(u ''linkedin.com/jobs/view'', u ''linkedin''),
             (u ''linkedin.com/comm/jobs'', u ''linkedin''),
             (u ''indeed.com/viewjob'', u ''indeed''),
             (u ''indeed.com/rc/clk'', u ''indeed''),
             (u ''greenhouse.io'', u ''greenhouse''),
             (u ''boards.greenhouse.io'', u ''greenhouse''),
             (u ''wellfound.com'', u ''wellfound''),
             (u ''angel.co'', u ''wellfound'')]
      in map_option snd (find (\<lambda>(pattern, src). py_in pattern html_lower) patterns))"

text \<open>
  The result of a Python call: the value it returns or the exception it raises.
  \<open>parse_email\<close> has no \<open>raise\<close>; its warnings go to the logger, the first component.
\<close>

datatype exn = UnrecognizedSource

datatype 'a outcome = Returns 'a | Raises exn

definition parse_email ::
  "parser_classes \<Rightarrow> pstr \<Rightarrow> pstr \<Rightarrow> pstr option \<Rightarrow> pstr list \<times> job list outcome" where
  "parse_email cls html email_dt src =
     (let src1 = (case src of None \<Rightarrow> detect_source html | Some s \<Rightarrow> Some s)
      in case src1 of
           None \<Rightarrow> ([u ''Could not detect email source''], Returns [])
         | Some s \<Rightarrow>
             (case get_parser cls s of
                None \<Rightarrow> ([u ''No parser found for source: '' @ s], Returns [])
              | Some p \<Rightarrow> ([], Returns (p html email_dt))))"

section \<open>Example inputs\<close>

text \<open>
  The scenario of the LinkedIn alert: one table cell with an anchor to a job-view URL and
  the text after it; the text of the cell reads
  \<open>Senior Backend Engineer \<cdot> Acme Corp \<cdot> Remote\<close> with the middle dot U+00B7.
\<close>

definition scenario_doc :: node where
  "scenario_doc =
     Tag (u ''[document]'') []
       [Tag (u ''td'') []
          [Tag (u ''a'') [(u ''href'', u ''https://www.linkedin.com/comm/jobs/view/123'')]
             [NavigableString (u ''Senior Backend Engineer'')],
           NavigableString ([32, 183] @ u '' Acme Corp '' @ [183] @ u '' Remote'')]]"

text \<open>The id that \<open>parse_linkedin_jobs\<close> of local_app.py gives the job of the scenario.\<close>

definition scenario_id :: pstr where
  "scenario_id =
     generate_job_id (u ''https://www.linkedin.com/comm/jobs/view/123'')
       (u ''Senior Backend Engineer'') []"

text \<open>An anchor to a job-view URL directly under the document, outside any container.\<close>

definition bare_link_doc :: node where
  "bare_link_doc =
     Tag (u ''[document]'') []
       [Tag (u ''a'') [(u ''href'', u ''https://www.linkedin.com/comm/jobs/view/7'')]
          [NavigableString (u ''Data Engineer'')]]"

text \<open>A cell that links the same job twice, from its title and from a button.\<close>

definition repeated_link_doc :: node where
  "repeated_link_doc =
     Tag (u ''[document]'') []
       [Tag (u ''td'') []
          [Tag (u ''a'') [(u ''href'', u ''https://www.linkedin.com/comm/jobs/view/123'')]
             [NavigableString (u ''Senior Backend Engineer'')],
           Tag (u ''a'') [(u ''href'', u ''https://www.linkedin.com/comm/jobs/view/123'')]
             [NavigableString (u ''View job'')]]]"

text \<open>An Indeed alert: a cell with the title link, a company line and a location line.\<close>

definition indeed_doc :: node where
  "indeed_doc =
     Tag (u ''[document]'') []
       [Tag (u ''td'') []
          [Tag (u ''a'') [(u ''href'', u ''https://www.indeed.com/rc/clk?jk=abc123'')]
             [NavigableString (u ''Backend Developer'')],
           NavigableString ([10] @ u ''Acme Corp'' @ [10] @ u ''Austin, TX'')]]"

text \<open>An Indeed alert whose cell has nothing but the title link.\<close>

definition title_only_cell :: node where
  "title_only_cell =
     Tag (u ''td'') []
       [Tag (u ''a'') [(u ''href'', u ''https://www.indeed.com/rc/clk?jk=abc123'')]
          [NavigableString (u ''Backend Developer'')]]"

definition indeed_title_only_doc :: node where
  "indeed_title_only_doc = Tag (u ''[document]'') [] [title_only_cell]"

text \<open>A page without any anchor.\<close>

definition empty_doc :: node where
  "empty_doc = Tag (u ''[document]'') [] [NavigableString (u ''No new jobs today'')]"

definition example_shared :: shared where
  "example_shared = \<lparr>shared_generate_job_id = generate_job_id, JobStatus_NEW = u ''new''\<rparr>"

text \<open>
  Modelled from the spec: \<open>BaseParser.clean_text_field\<close> (app/parsers/base.py is not in the
  sources), for the examples only: the spec's \<open>cleanText\<close> collapses runs of white space to
  single spaces and trims. \<open>clean_job_url\<close> is taken as the identity there.
\<close>

definition example_base :: base_parser where
  "example_base =
     \<lparr>clean_job_url = (\<lambda>link. link),
      clean_text_field = (\<lambda>text. py_join (u '' '') (py_split_ws text)),
      base_generate_job_id = generate_job_id\<rparr>"

definition example_classes :: parser_classes where
  "example_classes =
     \<lparr>LinkedInParser = (\<lambda>html email_dt. []),
      IndeedParser = IndeedParser_parse example_base (parsed_as empty_doc),
      GreenhouseParser = (\<lambda>html email_dt. []),
      WellfoundParser = (\<lambda>html email_dt. []),
      WeWorkRemotelyParser = (\<lambda>html email_dt. [])\<rparr>"

text \<open>
  A mailbox with one LinkedIn alert, the scenario above, under the first query, and
  nothing under the others.
\<close>

definition example_gmail :: gmail where
  "example_gmail query =
     (if query = u ''from:jobs-noreply@linkedin.com after:2024/01/01''
      then Some [Some (u ''2024-01-05T10:00:00'', u ''<html>'')]
      else Some [])"

text \<open>
  Feeds. The clock of the examples stands at day 20 after the epoch; the two dates are
  those of day 19 and of day 10, which \<open>parsedate_to_datetime\<close> reads as naive with the zone
  \<open>-0000\<close> and as aware with \<open>+0000\<close>. Only the last feed of \<open>WWR_FEEDS\<close> answers.
\<close>

definition example_now :: int where
  "example_now = 20 * 86400000000"

definition example_parsedate :: "pstr \<Rightarrow> datetime option" where
  "example_parsedate t =
     (if t = u ''Tue, 20 Jan 1970 00:00:00 -0000'' then Some (Naive (19 * 86400000000))
      else if t = u ''Sun, 11 Jan 1970 00:00:00 -0000'' then Some (Naive (10 * 86400000000))
      else if t = u ''Sun, 11 Jan 1970 00:00:00 +0000'' then Some (Aware (10 * 86400000000) 0)
      else None)"

text \<open>A description without markup parses to a single string.\<close>

definition text_only :: html_parser where
  "text_only s = Tag (u ''[document]'') [] [NavigableString s]"

definition example_lib :: "element \<Rightarrow> pylib" where
  "example_lib feed =
     \<lparr>BeautifulSoup = text_only,
      parsedate_to_datetime = example_parsedate,
      isoformat = (\<lambda>dt. u ''1970-01-20T00:00:00''),
      fetch_feed = (\<lambda>feed_url. if feed_url = u ''https://weworkremotely.com/remote-jobs.rss''
                                 then Some feed else None)\<rparr>"

definition rss :: "element list \<Rightarrow> element" where
  "rss items = Element (u ''rss'') None [Element (u ''channel'') None items]"

text \<open>
  An item as the feed publishes it: \<open>title\<close>, \<open>link\<close> and \<open>pubDate\<close> hold text and have no
  child elements. It was published one day before the clock of the examples.
\<close>

definition plain_item :: element where
  "plain_item =
     Element (u ''item'') None
       [Element (u ''title'') (Some (u ''Acme Corp: Backend Engineer'')) [],
        Element (u ''link'') (Some (u ''https://weworkremotely.com/remote-jobs/acme-backend'')) [],
        Element (u ''pubDate'') (Some (u ''Tue, 20 Jan 1970 00:00:00 -0000'')) []]"

text \<open>
  Items whose \<open>title\<close> and \<open>link\<close> elements have a child element after their text; the
  parameters are the text of \<open>pubDate\<close> and of \<open>description\<close> (an empty element has no
  text).
\<close>

definition nested_item :: "pstr \<Rightarrow> pstr \<Rightarrow> element" where
  "nested_item date desc =
     Element (u ''item'') None
       [Element (u ''title'') (Some (u ''Acme Corp: Backend Engineer''))
          [Element (u ''b'') None []],
        Element (u ''link'') (Some (u ''https://weworkremotely.com/remote-jobs/acme-backend''))
          [Element (u ''b'') None []],
        Element (u ''description'') (if desc = [] then None else Some desc) [],
        Element (u ''pubDate'') (Some date) []]"

text \<open>A table with one job that the user has marked as applied, and its Lambda twin.\<close>

definition applied_row :: row where
  "applied_row =
     \<lparr>col_title = Some (u ''Site Reliability Engineer''), col_company = Some (u ''Initech''),
      col_location = Some (u ''Remote''), col_url = Some (u ''https://x.io/j''),
      col_source = Some (u ''linkedin''), col_status = Some (u ''applied''),
      col_score = Some 85, col_analysis = Some (u ''{}''),
      col_cover_letter = Some (u ''Dear team''), col_notes = None,
      col_raw_text = Some (u ''Site Reliability Engineer''),
      col_created_at = Some (u ''2024-01-02T09:00:00''),
      col_updated_at = Some (u ''2024-01-03T09:00:00''), col_description = None\<rparr>"

definition applied_job :: job where
  "applied_job =
     \<lparr>job_id = u ''00112233aabbccdd'', title = u ''Site Reliability Engineer'',
      company = u ''Initech'', location = u ''Remote'', url = u ''https://x.io/j'',
      source = u ''linkedin'', raw_text = u ''Site Reliability Engineer'', created_at = None,
      email_date = Some (u ''2024-01-02T09:00:00''), description = None,
      status = Some (u ''applied''), score = Some 85\<rparr>"

section \<open>Facts about the text functions\<close>

lemmas eval_text =
  u_def py_isspace_def py_strip_def py_join_def py_split_def py_split1_def py_split_ws_def
  startswith_def get_text_def lit_then_def re_end_def py_lower_def lower_cp_def

lemmas eval_tree =
  find_all_a_def tag_find_def find_parent_def link_title_def Let_def

section \<open>The job id\<close>







text \<open>
  The model of the hash on the test vector of the standard, and the id of one job as
  Python computes it.
\<close>

lemma sha256_abc:
  "hexdigest (sha256 (encode (u ''abc''))) =
     u ''ba7816bf8f01cfea414140de5dae2223b00361a396177a9cb410ff61f20015ad''"
  by code_simp

lemma generate_job_id_example:
  "generate_job_id (u ''https://X.io/j'') (u ''Dev'') (u ''ACME'') = u ''d5f7df2f00568438''"
  by code_simp


section \<open>The capture endpoint rejects a request without url or title\<close>



section \<open>Re-ingestion leaves the store as it is\<close>

lemma scan_store_frame:
  "conn jid = Some r \<Longrightarrow> fst (scan_store now jobs (conn, n)) jid = Some r"
proof (induction jobs arbitrary: conn n)
  case Nil
  then show ?case by simp
next
  case (Cons j jobs)
  show ?case
  proof (cases "conn (job_id j)")
    case None
    with Cons.prems have "job_id j \<noteq> jid" by auto
    then have "(conn(job_id j \<mapsto> scan_row j now)) jid = Some r"
      using Cons.prems by simp
    then show ?thesis
      using None Cons.IH by simp
  next
    case (Some existing)
    then show ?thesis
      using Cons by simp
  qed
qed

lemma scan_store_dom:
  "dom (fst (scan_store now jobs (conn, n))) = dom conn \<union> job_id ` set jobs"
  by (induction jobs arbitrary: conn n) (auto split: option.splits)

lemma scan_store_noop:
  "job_id ` set jobs \<subseteq> dom conn \<Longrightarrow> scan_store now jobs (conn, n) = (conn, n)"
  by (induction jobs arbitrary: conn n) (auto split: option.splits)

lemma api_scan_table:
  "fst (api_scan bs service after_date now conn) =
     fst (scan_store now (scan_emails bs service after_date) (conn, 0))"
  by (simp add: api_scan_def Let_def split: prod.splits)

lemma store_new_frame:
  "model key = Some r \<Longrightarrow> fst (store_new user_id jobs (model, n)) key = Some r"
proof (induction jobs arbitrary: model n)
  case Nil
  then show ?case by simp
next
  case (Cons j jobs)
  show ?case
  proof (cases "job_exists model user_id (job_id j)")
    case True
    then show ?thesis
      using Cons by simp
  next
    case False
    with Cons.prems have "(user_id, job_id j) \<noteq> key"
      by (auto simp: job_exists_def)
    then have "put_job model user_id j key = Some r"
      using Cons.prems by (simp add: put_job_def)
    then show ?thesis
      using False Cons.IH by simp
  qed
qed

lemma store_new_dom:
  "dom (fst (store_new user_id jobs (model, n))) =
     dom model \<union> (\<lambda>j. (user_id, job_id j)) ` set jobs"
  by (induction jobs arbitrary: model n) (auto simp: job_exists_def put_job_def)

lemma store_new_noop:
  "(\<lambda>j. (user_id, job_id j)) ` set jobs \<subseteq> dom model \<Longrightarrow>
   store_new user_id jobs (model, n) = (model, n)"
  by (induction jobs arbitrary: model n) (auto simp: job_exists_def)

lemma lambda_handler_table:
  "fst (lambda_handler sh bs (Some service) after_date event_user_id default_user model) =
     fst (store_new (data_get event_user_id default_user)
            (handler_scan_emails sh bs service after_date) (model, 0))"
  by (simp add: lambda_handler_def Let_def split: prod.splits)

text \<open>
  Claim C1. Running the ingestion again over the same raw content (the same mailbox, read
  by the same queries) inserts nothing and changes no stored record. For \<open>api_scan\<close> of
  local_app.py: a record that is in the table before a scan is the same record after it,
  with its status, score, analysis and cover letter; and a scan over a table that has
  every record of an earlier scan of the same content (the table of the first scan, or
  that table after the user or the analysis have changed or added records) returns the
  table as it was given and reports 0 new jobs. The same holds for \<open>lambda_handler\<close> of
  the scanner Lambda, on the store of the user it runs for.
\<close>

theorem reingestion_is_a_noop:
  "(conn jid = Some r \<longrightarrow> fst (api_scan bs service after_date now conn) jid = Some r) \<and>
   (dom (fst (api_scan bs service after_date now conn)) \<subseteq> dom conn' \<longrightarrow>
      api_scan bs service after_date now' conn' =
        (conn', length (scan_emails bs service after_date), 0)) \<and>
   (model key = Some item \<longrightarrow>
      fst (lambda_handler sh bs (Some service) after_date event_user_id default_user model) key
        = Some item) \<and>
   (dom (fst (lambda_handler sh bs (Some service) after_date event_user_id default_user model))
      \<subseteq> dom model' \<longrightarrow>
      lambda_handler sh bs (Some service) after_date event_user_id default_user model' =
        (model', Status200 (length (handler_scan_emails sh bs service after_date)) 0
                   (data_get event_user_id default_user)))"
proof (intro conjI impI)
  assume "conn jid = Some r"
  then show "fst (api_scan bs service after_date now conn) jid = Some r"
    by (simp add: api_scan_table scan_store_frame)
next
  assume "dom (fst (api_scan bs service after_date now conn)) \<subseteq> dom conn'"
  then have "job_id ` set (scan_emails bs service after_date) \<subseteq> dom conn'"
    by (auto simp: api_scan_table scan_store_dom)
  then show "api_scan bs service after_date now' conn' =
      (conn', length (scan_emails bs service after_date), 0)"
    by (simp add: api_scan_def Let_def scan_store_noop)
next
  assume "model key = Some item"
  then show "fst (lambda_handler sh bs (Some service) after_date event_user_id default_user model)
      key = Some item"
    by (simp add: lambda_handler_table store_new_frame)
next
  let ?uid = "data_get event_user_id default_user"
  let ?jobs = "handler_scan_emails sh bs service after_date"
  assume "dom (fst (lambda_handler sh bs (Some service) after_date event_user_id default_user
      model)) \<subseteq> dom model'"
  then have "dom (fst (store_new ?uid ?jobs (model, 0))) \<subseteq> dom model'"
    by (simp add: lambda_handler_table)
  then have "(\<lambda>j. (?uid, job_id j)) ` set ?jobs \<subseteq> dom model'"
    by (auto simp: store_new_dom)
  then show "lambda_handler sh bs (Some service) after_date event_user_id default_user model' =
      (model', Status200 (length ?jobs) 0 ?uid)"
    by (simp add: lambda_handler_def Let_def store_new_noop)
qed

lemma dom_update_job: "dom (update_job jid new_status now conn) = dom conn"
  by (auto simp: update_job_def split: option.splits if_splits)

lemma example_scan_found:
  "length (scan_emails (parsed_as scenario_doc) example_gmail (u ''2024/01/01'')) = 1"
  by (simp add: scan_emails_def scan_query_def example_gmail_def parse_linkedin_jobs_def
      scenario_doc_def parsed_as_def re_linkedin_def eval_tree eval_text)

lemma example_handler_scan_found:
  "length (handler_scan_emails example_shared (parsed_as scenario_doc) example_gmail
     (u ''2024/01/01'')) = 1"
  by (simp add: handler_scan_emails_def handler_scan_query_def example_gmail_def
      handler_parse_linkedin_jobs_def scenario_doc_def parsed_as_def re_linkedin_def eval_tree eval_text)

text \<open>
  The theorem at the example mailbox: a record the user has marked as applied survives a
  scan; and after a first scan of the empty table and a change of status by the user, the
  second scan of the same mailbox finds the one job again, stores nothing and returns the
  table as it was. Likewise for the Lambda.
\<close>

theorem reingestion_is_a_noop_witness:
  "fst (api_scan (parsed_as scenario_doc) example_gmail (u ''2024/01/01'') (u ''t1'')
         [u ''00112233aabbccdd'' \<mapsto> applied_row]) (u ''00112233aabbccdd'') = Some applied_row \<and>
   api_scan (parsed_as scenario_doc) example_gmail (u ''2024/01/01'') (u ''t3'')
     (update_job scenario_id (Some (u ''applied'')) (u ''t2'')
        (fst (api_scan (parsed_as scenario_doc) example_gmail (u ''2024/01/01'') (u ''t1'')
               Map.empty))) =
     (update_job scenario_id (Some (u ''applied'')) (u ''t2'')
        (fst (api_scan (parsed_as scenario_doc) example_gmail (u ''2024/01/01'') (u ''t1'')
               Map.empty)), 1, 0) \<and>
   fst (lambda_handler example_shared (parsed_as scenario_doc) (Some example_gmail)
          (u ''2024/01/01'') None (u ''default'')
          [(u ''default'', u ''00112233aabbccdd'') \<mapsto> applied_job])
     (u ''default'', u ''00112233aabbccdd'') = Some applied_job \<and>
   lambda_handler example_shared (parsed_as scenario_doc) (Some example_gmail)
     (u ''2024/01/01'') None (u ''default'')
     (fst (lambda_handler example_shared (parsed_as scenario_doc) (Some example_gmail)
            (u ''2024/01/01'') None (u ''default'') Map.empty)) =
     (fst (lambda_handler example_shared (parsed_as scenario_doc) (Some example_gmail)
            (u ''2024/01/01'') None (u ''default'') Map.empty), Status200 1 0 (u ''default''))"
  using reingestion_is_a_noop
    [where conn = "[u ''00112233aabbccdd'' \<mapsto> applied_row]" and jid = "u ''00112233aabbccdd''"
       and r = applied_row and bs = "parsed_as scenario_doc" and service = example_gmail
       and after_date = "u ''2024/01/01''" and now = "u ''t1''" and now' = "u ''t3''"
       and sh = example_shared and event_user_id = None and default_user = "u ''default''"
       and model = "[(u ''default'', u ''00112233aabbccdd'') \<mapsto> applied_job]"
       and key = "(u ''default'', u ''00112233aabbccdd'')" and item = applied_job
       and conn' = "[u ''00112233aabbccdd'' \<mapsto> applied_row]"
       and model' = "[(u ''default'', u ''00112233aabbccdd'') \<mapsto> applied_job]"]
    reingestion_is_a_noop
    [where conn = Map.empty and bs = "parsed_as scenario_doc" and service = example_gmail
       and after_date = "u ''2024/01/01''" and now = "u ''t1''" and now' = "u ''t3''"
       and sh = example_shared and event_user_id = None and default_user = "u ''default''"
       and model = Map.empty
       and conn' = "update_job scenario_id (Some (u ''applied'')) (u ''t2'')
          (fst (api_scan (parsed_as scenario_doc) example_gmail (u ''2024/01/01'') (u ''t1'')
                 Map.empty))"
       and model' = "fst (lambda_handler example_shared (parsed_as scenario_doc)
          (Some example_gmail) (u ''2024/01/01'') None (u ''default'') Map.empty)"]
  by (simp add: dom_update_job example_scan_found example_handler_scan_found)

section \<open>What the loops of the parsers return\<close>

text \<open>Every job of a loop is built by the loop's body from some link.\<close>

lemma linkedin_loop_form:
  "j \<in> set (linkedin_loop d links seen) \<Longrightarrow> \<exists>href ttl anc. j = linkedin_job d href ttl anc"
  by (induction d links seen rule: linkedin_loop.induct) (auto simp: Let_def split: if_splits)

lemma indeed_loop_form:
  "j \<in> set (indeed_loop d links seen) \<Longrightarrow> \<exists>href ttl anc. j = indeed_job d href ttl anc"
  by (induction d links seen rule: indeed_loop.induct) (auto simp: Let_def split: if_splits)

lemma handler_linkedin_loop_form:
  "j \<in> set (handler_linkedin_loop sh d links seen) \<Longrightarrow>
   \<exists>href ttl anc. j = handler_linkedin_job sh d href ttl anc"
  by (induction sh d links seen rule: handler_linkedin_loop.induct)
    (auto simp: Let_def split: if_splits)

lemma handler_indeed_loop_form:
  "j \<in> set (handler_indeed_loop sh d links seen) \<Longrightarrow>
   \<exists>href ttl anc. j = handler_indeed_job sh d href ttl anc"
  by (induction sh d links seen rule: handler_indeed_loop.induct)
    (auto simp: Let_def split: if_splits)

lemma card_loop_form:
  "j \<in> set (card_loop base d links seen) \<Longrightarrow> \<exists>href ft anc. j = card_job base d href ft anc"
  by (induction base d links seen rule: card_loop.induct) (auto simp: Let_def split: if_splits)

text \<open>The fields of the job that the body of a loop builds.\<close>

lemma linkedin_job_bounds:
  "length (title (linkedin_job d href ttl anc)) \<le> 200 \<and>
   length (company (linkedin_job d href ttl anc)) \<le> 100 \<and>
   length (location (linkedin_job d href ttl anc)) \<le> 100 \<and>
   length (raw_text (linkedin_job d href ttl anc)) \<le> 1000"
  by (simp add: linkedin_job_def Let_def split: option.splits)

lemma indeed_job_bounds:
  "length (title (indeed_job d href ttl anc)) \<le> 200 \<and>
   length (company (indeed_job d href ttl anc)) \<le> 100 \<and>
   length (location (indeed_job d href ttl anc)) \<le> 100 \<and>
   length (raw_text (indeed_job d href ttl anc)) \<le> 1000"
  by (simp add: indeed_job_def Let_def split: option.splits)

lemma handler_linkedin_job_bounds:
  "length (title (handler_linkedin_job sh d href ttl anc)) \<le> 200 \<and>
   length (company (handler_linkedin_job sh d href ttl anc)) \<le> 100 \<and>
   length (location (handler_linkedin_job sh d href ttl anc)) \<le> 100 \<and>
   length (raw_text (handler_linkedin_job sh d href ttl anc)) \<le> 1000"
  by (simp add: handler_linkedin_job_def Let_def split: option.splits)

lemma handler_indeed_job_bounds:
  "length (title (handler_indeed_job sh d href ttl anc)) \<le> 200 \<and>
   length (company (handler_indeed_job sh d href ttl anc)) \<le> 100 \<and>
   length (location (handler_indeed_job sh d href ttl anc)) \<le> 100 \<and>
   length (raw_text (handler_indeed_job sh d href ttl anc)) \<le> 1000"
  by (simp add: handler_indeed_job_def Let_def split: option.splits)

lemma card_job_bounds:
  "length (title (card_job base d href ft anc)) \<le> 200 \<and>
   length (company (card_job base d href ft anc)) \<le> 100 \<and>
   length (location (card_job base d href ft anc)) \<le> 100"
  by (simp add: card_job_def Let_def)

lemma linkedin_job_url: "url (linkedin_job d href ttl anc) = href"
  by (simp add: linkedin_job_def Let_def)

lemma indeed_job_url: "url (indeed_job d href ttl anc) = href"
  by (simp add: indeed_job_def Let_def)

lemma handler_linkedin_job_url: "url (handler_linkedin_job sh d href ttl anc) = href"
  by (simp add: handler_linkedin_job_def Let_def)

lemma handler_indeed_job_url: "url (handler_indeed_job sh d href ttl anc) = href"
  by (simp add: handler_indeed_job_def Let_def)

lemma card_job_url: "url (card_job base d href ft anc) = href"
  by (simp add: card_job_def Let_def)

text \<open>
  The invariant of the \<open>seen\<close> set: the loop emits no URL that is in \<open>seen\<close>, and no URL
  twice.
\<close>

lemma linkedin_loop_urls:
  "url ` set (linkedin_loop d links seen) \<inter> seen = {} \<and>
   distinct (map url (linkedin_loop d links seen))"
  by (induction d links seen rule: linkedin_loop.induct) (auto simp: Let_def linkedin_job_url)

lemma indeed_loop_urls:
  "url ` set (indeed_loop d links seen) \<inter> seen = {} \<and>
   distinct (map url (indeed_loop d links seen))"
  by (induction d links seen rule: indeed_loop.induct) (auto simp: Let_def indeed_job_url)

lemma handler_linkedin_loop_urls:
  "url ` set (handler_linkedin_loop sh d links seen) \<inter> seen = {} \<and>
   distinct (map url (handler_linkedin_loop sh d links seen))"
  by (induction sh d links seen rule: handler_linkedin_loop.induct)
    (auto simp: Let_def handler_linkedin_job_url)

lemma handler_indeed_loop_urls:
  "url ` set (handler_indeed_loop sh d links seen) \<inter> seen = {} \<and>
   distinct (map url (handler_indeed_loop sh d links seen))"
  by (induction sh d links seen rule: handler_indeed_loop.induct)
    (auto simp: Let_def handler_indeed_job_url)

lemma card_loop_urls:
  "url ` set (card_loop base d links seen) \<inter> seen = {} \<and>
   distinct (map url (card_loop base d links seen))"
  by (induction base d links seen rule: card_loop.induct) (auto simp: Let_def card_job_url)

text \<open>The jobs of a feed scan come from the items of a feed that answered.\<close>

lemma fetch_wwr_jobs_from_item:
  assumes "j \<in> set (fetch_wwr_jobs lib now days_back)"
  shows "\<exists>feed_url root item.
           feed_url \<in> set WWR_FEEDS \<and> fetch_feed lib feed_url = Some root \<and>
           item \<in> set (findall_items root) \<and>
           wwr_item lib now (Naive (now - timedelta_days days_back)) item = Some j"
proof -
  from assms obtain feed_url where f: "feed_url \<in> set WWR_FEEDS"
    and j: "j \<in> set (wwr_feed lib now (Naive (now - timedelta_days days_back)) feed_url)"
    by (auto simp: fetch_wwr_jobs_def Let_def)
  from j obtain root where r: "fetch_feed lib feed_url = Some root"
    and m: "j \<in> set (List.map_filter (wwr_item lib now (Naive (now - timedelta_days days_back)))
               (findall_items root))"
    by (cases "fetch_feed lib feed_url") (auto simp: wwr_feed_def)
  from m obtain item where "item \<in> set (findall_items root)"
    and "wwr_item lib now (Naive (now - timedelta_days days_back)) item = Some j"
    by (auto simp: List.map_filter_def)
  with f r show ?thesis by blast
qed

lemma or_str_Some: "d \<noteq> [] \<Longrightarrow> or_str (Some d) t = d"
  by simp

lemma wwr_item_bounds:
  assumes "wwr_item lib now cutoff item = Some j"
  shows "length (title j) \<le> 200 \<and> length (company j) \<le> 100 \<and> location j = u ''Remote'' \<and>
         (description j \<noteq> None \<and> description j \<noteq> Some [] \<longrightarrow>
            description j = Some (raw_text j) \<and> length (raw_text j) \<le> 2000)"
proof -
  have "(description j \<noteq> None \<and> description j \<noteq> Some [] \<longrightarrow>
            description j = Some (raw_text j) \<and> length (raw_text j) \<le> 2000)"
    using assms
    by (auto simp: wwr_item_def Let_def split: if_splits option.splits)
  moreover have "length (title j) \<le> 200 \<and> length (company j) \<le> 100 \<and> location j = u ''Remote''"
    using assms
    by (auto simp: wwr_item_def Let_def split: if_splits option.splits)
  ultimately show ?thesis by blast
qed

section \<open>Field bounds\<close>

lemma strip_replicate: "\<not> py_isspace c \<Longrightarrow> py_strip (replicate n c) = replicate n c"
  by (simp add: py_strip_def)

lemma long_description_raw_text:
  "map raw_text
     (fetch_wwr_jobs
        (example_lib (rss [nested_item (u ''Tue, 20 Jan 1970 00:00:00 -0000'')
                             (replicate 1001 120)]))
        example_now 7) = [replicate 1001 120]"
proof -
  have s: "py_strip (replicate 1001 120) = replicate 1001 120"
    by (rule strip_replicate) (simp add: py_isspace_def)
  have t: "get_text (text_only (replicate 1001 120)) [32] True = replicate 1001 120"
    by (simp add: get_text_def text_only_def s py_join_def)
  show ?thesis
    by (simp add: fetch_wwr_jobs_def wwr_feed_def WWR_FEEDS_def example_lib_def rss_def
        findall_items_def wwr_item_def elem_find_def wwr_pub_date_def example_parsedate_def
        example_now_def timedelta_days_def List.map_filter_def nested_item_def t Let_def
        u_def py_split1_def py_strip_def py_isspace_def startswith_def)
qed

text \<open>
  Claim C3, as stated, fails: the record of a WeWorkRemotely item with a description of
  1001 characters has a \<open>raw_text\<close> of 1001 characters.
\<close>

theorem raw_text_bound_counterexample:
  "length (fetch_wwr_jobs
        (example_lib (rss [nested_item (u ''Tue, 20 Jan 1970 00:00:00 -0000'')
                             (replicate 1001 120)]))
        example_now 7) = 1 \<and>
   \<not> length (raw_text (hd (fetch_wwr_jobs
        (example_lib (rss [nested_item (u ''Tue, 20 Jan 1970 00:00:00 -0000'')
                             (replicate 1001 120)]))
        example_now 7))) \<le> 1000"
proof -
  let ?jobs = "fetch_wwr_jobs
        (example_lib (rss [nested_item (u ''Tue, 20 Jan 1970 00:00:00 -0000'')
                             (replicate 1001 120)]))
        example_now 7"
  have "length (map raw_text ?jobs) = 1"
    by (simp only: long_description_raw_text) simp
  then have len: "length ?jobs = 1" by simp
  then have "raw_text (hd ?jobs) = hd (map raw_text ?jobs)"
    by (cases ?jobs) simp_all
  then have "raw_text (hd ?jobs) = replicate 1001 120"
    by (simp only: long_description_raw_text) simp
  with len show ?thesis by simp
qed

lemma parse_linkedin_jobs_bounds:
  assumes "j \<in> set (parse_linkedin_jobs bs html d)"
  shows "length (title j) \<le> 200 \<and> length (company j) \<le> 100 \<and>
      length (location j) \<le> 100 \<and> length (raw_text j) \<le> 1000"
proof -
  from assms obtain href ttl anc where "j = linkedin_job d href ttl anc"
    unfolding parse_linkedin_jobs_def Let_def by (blast dest: linkedin_loop_form)
  then show ?thesis
    using linkedin_job_bounds by simp
qed

lemma parse_indeed_jobs_bounds:
  assumes "j \<in> set (parse_indeed_jobs bs html d)"
  shows "length (title j) \<le> 200 \<and> length (company j) \<le> 100 \<and>
      length (location j) \<le> 100 \<and> length (raw_text j) \<le> 1000"
proof -
  from assms obtain href ttl anc where "j = indeed_job d href ttl anc"
    unfolding parse_indeed_jobs_def Let_def by (blast dest: indeed_loop_form)
  then show ?thesis
    using indeed_job_bounds by simp
qed

lemma handler_parse_linkedin_jobs_bounds:
  assumes "j \<in> set (handler_parse_linkedin_jobs sh bs html d)"
  shows "length (title j) \<le> 200 \<and> length (company j) \<le> 100 \<and>
      length (location j) \<le> 100 \<and> length (raw_text j) \<le> 1000"
proof -
  from assms obtain href ttl anc where "j = handler_linkedin_job sh d href ttl anc"
    unfolding handler_parse_linkedin_jobs_def Let_def
    by (blast dest: handler_linkedin_loop_form)
  then show ?thesis
    using handler_linkedin_job_bounds by simp
qed

lemma handler_parse_indeed_jobs_bounds:
  assumes "j \<in> set (handler_parse_indeed_jobs sh bs html d)"
  shows "length (title j) \<le> 200 \<and> length (company j) \<le> 100 \<and>
      length (location j) \<le> 100 \<and> length (raw_text j) \<le> 1000"
proof -
  from assms obtain href ttl anc where "j = handler_indeed_job sh d href ttl anc"
    unfolding handler_parse_indeed_jobs_def Let_def by (blast dest: handler_indeed_loop_form)
  then show ?thesis
    using handler_indeed_job_bounds by simp
qed

lemma IndeedParser_parse_bounds:
  assumes "j \<in> set (IndeedParser_parse base bs html d)"
  shows "length (title j) \<le> 200 \<and> length (company j) \<le> 100 \<and> length (location j) \<le> 100"
proof -
  from assms obtain href ft anc where "j = card_job base d href ft anc"
    unfolding IndeedParser_parse_def Let_def by (blast dest: card_loop_form)
  then show ?thesis
    using card_job_bounds by simp
qed

lemma fetch_wwr_jobs_bounds:
  assumes "j \<in> set (fetch_wwr_jobs lib now days_back)"
  shows "length (title j) \<le> 200 \<and> length (company j) \<le> 100 \<and> length (location j) \<le> 100 \<and>
      (description j \<noteq> None \<and> description j \<noteq> Some [] \<longrightarrow>
         description j = Some (raw_text j) \<and> length (raw_text j) \<le> 2000)"
proof -
  from assms obtain item where
    "wwr_item lib now (Naive (now - timedelta_days days_back)) item = Some j"
    by (blast dest: fetch_wwr_jobs_from_item)
  then have b: "length (title j) \<le> 200 \<and> length (company j) \<le> 100 \<and>
      location j = u ''Remote'' \<and>
      (description j \<noteq> None \<and> description j \<noteq> Some [] \<longrightarrow>
         description j = Some (raw_text j) \<and> length (raw_text j) \<le> 2000)"
    by (rule wwr_item_bounds)
  then have "length (location j) \<le> 100"
    by (simp add: u_def)
  with b show ?thesis by blast
qed

text \<open>
  Claim C3, amended. In every job record that a parser returns, the title has at most 200
  characters, the company at most 100 and the location at most 100. The \<open>raw_text\<close> has at
  most 1000 characters in the records of the LinkedIn and Indeed parsers of local_app.py
  and of email_scanner/handler.py. In a WeWorkRemotely record with a non-empty
  description, \<open>raw_text\<close> is that description, of at most 2000 characters.
\<close>

theorem parsed_fields_bounded:
  "(\<forall>j \<in> set (parse_linkedin_jobs bs html d).
      length (title j) \<le> 200 \<and> length (company j) \<le> 100 \<and> length (location j) \<le> 100 \<and>
      length (raw_text j) \<le> 1000) \<and>
   (\<forall>j \<in> set (parse_indeed_jobs bs html d).
      length (title j) \<le> 200 \<and> length (company j) \<le> 100 \<and> length (location j) \<le> 100 \<and>
      length (raw_text j) \<le> 1000) \<and>
   (\<forall>j \<in> set (handler_parse_linkedin_jobs sh bs html d).
      length (title j) \<le> 200 \<and> length (company j) \<le> 100 \<and> length (location j) \<le> 100 \<and>
      length (raw_text j) \<le> 1000) \<and>
   (\<forall>j \<in> set (handler_parse_indeed_jobs sh bs html d).
      length (title j) \<le> 200 \<and> length (company j) \<le> 100 \<and> length (location j) \<le> 100 \<and>
      length (raw_text j) \<le> 1000) \<and>
   (\<forall>j \<in> set (IndeedParser_parse base bs html d).
      length (title j) \<le> 200 \<and> length (company j) \<le> 100 \<and> length (location j) \<le> 100) \<and>
   (\<forall>j \<in> set (fetch_wwr_jobs lib now days_back).
      length (title j) \<le> 200 \<and> length (company j) \<le> 100 \<and> length (location j) \<le> 100 \<and>
      (description j \<noteq> None \<and> description j \<noteq> Some [] \<longrightarrow>
         description j = Some (raw_text j) \<and> length (raw_text j) \<le> 2000))"
  using parse_linkedin_jobs_bounds [of _ bs html d] parse_indeed_jobs_bounds [of _ bs html d]
    handler_parse_linkedin_jobs_bounds [of _ sh bs html d]
    handler_parse_indeed_jobs_bounds [of _ sh bs html d]
    IndeedParser_parse_bounds [of _ base bs html d]
    fetch_wwr_jobs_bounds [of _ lib now days_back]
  by blast

lemma hd_in_set_length_1: "length xs = 1 \<Longrightarrow> hd xs \<in> set xs"
  by (cases xs) auto

lemma hd_map_length_1: "length xs = 1 \<Longrightarrow> f (hd xs) = hd (map f xs)"
  by (cases xs) auto

lemmas eval_wwr =
  fetch_wwr_jobs_def wwr_feed_def WWR_FEEDS_def example_lib_def rss_def findall_items_def
  wwr_item_def elem_find_def wwr_pub_date_def example_parsedate_def example_now_def
  timedelta_days_def List.map_filter_def text_only_def

lemma example_linkedin_length:
  "length (parse_linkedin_jobs (parsed_as scenario_doc) [] (u ''2024-01-05'')) = 1"
  by (simp add: parse_linkedin_jobs_def scenario_doc_def parsed_as_def re_linkedin_def
      eval_tree eval_text)

lemma example_handler_linkedin_length:
  "length (handler_parse_linkedin_jobs example_shared (parsed_as scenario_doc) []
     (u ''2024-01-05'')) = 1"
  by (simp add: handler_parse_linkedin_jobs_def scenario_doc_def parsed_as_def re_linkedin_def
      eval_tree eval_text)

lemma example_indeed_length:
  "length (parse_indeed_jobs (parsed_as indeed_doc) [] (u ''2024-01-05'')) = 1"
  by (simp add: parse_indeed_jobs_def indeed_doc_def parsed_as_def re_indeed_def
      eval_tree eval_text)

lemma example_handler_indeed_length:
  "length (handler_parse_indeed_jobs example_shared (parsed_as indeed_doc) []
     (u ''2024-01-05'')) = 1"
  by (simp add: handler_parse_indeed_jobs_def indeed_doc_def parsed_as_def re_indeed_vjk_def
      eval_tree eval_text)

lemma example_card_length:
  "length (IndeedParser_parse example_base (parsed_as indeed_doc) [] (u ''2024-01-05'')) = 1"
  by (simp add: IndeedParser_parse_def indeed_doc_def parsed_as_def re_indeed_key_def
      example_base_def exclude_keywords_def hex_plus_def is_hex_lower_def eval_tree eval_text)

lemma example_wwr_description:
  "map description
     (fetch_wwr_jobs
        (example_lib (rss [nested_item (u ''Tue, 20 Jan 1970 00:00:00 -0000'')
                             (u ''Build APIs'')]))
        example_now 7) = [Some (u ''Build APIs'')]"
  by (simp add: eval_wwr nested_item_def eval_text Let_def)

text \<open>
  The theorem at the examples: the one job of the LinkedIn scenario, of the Indeed alert
  and of a feed with one item and a description, for each parser.
\<close>

theorem parsed_fields_bounded_witness:
  "length (raw_text (hd (parse_linkedin_jobs (parsed_as scenario_doc) []
     (u ''2024-01-05'')))) \<le> 1000 \<and>
   length (raw_text (hd (handler_parse_linkedin_jobs example_shared (parsed_as scenario_doc) []
     (u ''2024-01-05'')))) \<le> 1000 \<and>
   length (raw_text (hd (parse_indeed_jobs (parsed_as indeed_doc) []
     (u ''2024-01-05'')))) \<le> 1000 \<and>
   length (raw_text (hd (handler_parse_indeed_jobs example_shared (parsed_as indeed_doc) []
     (u ''2024-01-05'')))) \<le> 1000 \<and>
   length (company (hd (IndeedParser_parse example_base (parsed_as indeed_doc) []
     (u ''2024-01-05'')))) \<le> 100 \<and>
   length (raw_text (hd (fetch_wwr_jobs
        (example_lib (rss [nested_item (u ''Tue, 20 Jan 1970 00:00:00 -0000'')
                             (u ''Build APIs'')]))
        example_now 7))) \<le> 2000"
proof -
  let ?wwr = "fetch_wwr_jobs
        (example_lib (rss [nested_item (u ''Tue, 20 Jan 1970 00:00:00 -0000'')
                             (u ''Build APIs'')]))
        example_now 7"
  have "length (map description ?wwr) = 1"
    by (simp only: example_wwr_description) simp
  then have len: "length ?wwr = 1" by simp
  have "description (hd ?wwr) = hd (map description ?wwr)"
    using len by (rule hd_map_length_1)
  then have desc: "description (hd ?wwr) = Some (u ''Build APIs'')"
    by (simp only: example_wwr_description) simp
  then have nonempty: "description (hd ?wwr) \<noteq> None \<and> description (hd ?wwr) \<noteq> Some []"
    by (simp add: u_def)
  show ?thesis
    using parsed_fields_bounded
      [of "parsed_as scenario_doc" "[]" "u ''2024-01-05''" example_shared example_base
        "example_lib (rss [nested_item (u ''Tue, 20 Jan 1970 00:00:00 -0000'')
                             (u ''Build APIs'')])" example_now 7]
      parsed_fields_bounded
      [of "parsed_as indeed_doc" "[]" "u ''2024-01-05''" example_shared example_base
        "example_lib (rss [nested_item (u ''Tue, 20 Jan 1970 00:00:00 -0000'')
                             (u ''Build APIs'')])" example_now 7]
      hd_in_set_length_1 [OF example_linkedin_length]
      hd_in_set_length_1 [OF example_handler_linkedin_length]
      hd_in_set_length_1 [OF example_indeed_length]
      hd_in_set_length_1 [OF example_handler_indeed_length]
      hd_in_set_length_1 [OF example_card_length]
      hd_in_set_length_1 [OF len] nonempty
    by blast
qed

section \<open>Repeated links\<close>

lemma example_duplicate_urls:
  "map url
     (fetch_wwr_jobs
        (example_lib (rss [nested_item (u ''Tue, 20 Jan 1970 00:00:00 -0000'') [],
                           nested_item (u ''Tue, 20 Jan 1970 00:00:00 -0000'') []]))
        example_now 7) =
   [u ''https://weworkremotely.com/remote-jobs/acme-backend'',
    u ''https://weworkremotely.com/remote-jobs/acme-backend'']"
  by (simp add: eval_wwr nested_item_def eval_text Let_def)

text \<open>
  Claim C4, as stated, fails: \<open>fetch_wwr_jobs\<close> keeps no set of the URLs it has emitted. A
  feed that lists the same item twice gives two records with the same url.
\<close>

theorem feed_scan_repeats_url_counterexample:
  "\<not> distinct (map url
     (fetch_wwr_jobs
        (example_lib (rss [nested_item (u ''Tue, 20 Jan 1970 00:00:00 -0000'') [],
                           nested_item (u ''Tue, 20 Jan 1970 00:00:00 -0000'') []]))
        example_now 7))"
  by (simp only: example_duplicate_urls) simp

text \<open>
  Claim C4, amended. Within one call, each parser of an email body (\<open>parse_linkedin_jobs\<close>
  and \<open>parse_indeed_jobs\<close> of local_app.py and of email_scanner/handler.py, and
  \<open>IndeedParser.parse\<close>) returns no two records with the same url: it keeps the set of the
  URLs it has met and skips a repeated link.
\<close>

theorem email_parsers_emit_each_url_once:
  "distinct (map url (parse_linkedin_jobs bs html d)) \<and>
   distinct (map url (parse_indeed_jobs bs html d)) \<and>
   distinct (map url (handler_parse_linkedin_jobs sh bs html d)) \<and>
   distinct (map url (handler_parse_indeed_jobs sh bs html d)) \<and>
   distinct (map url (IndeedParser_parse base bs html d))"
  by (simp add: parse_linkedin_jobs_def parse_indeed_jobs_def handler_parse_linkedin_jobs_def
      handler_parse_indeed_jobs_def IndeedParser_parse_def Let_def linkedin_loop_urls
      indeed_loop_urls handler_linkedin_loop_urls handler_indeed_loop_urls card_loop_urls)

lemma example_repeated_link:
  "length (find_all_a re_linkedin repeated_link_doc) = 2 \<and>
   map url (parse_linkedin_jobs (parsed_as repeated_link_doc) [] (u ''2024-01-05'')) =
     [u ''https://www.linkedin.com/comm/jobs/view/123'']"
  by (simp add: parse_linkedin_jobs_def repeated_link_doc_def parsed_as_def re_linkedin_def
      linkedin_job_def eval_tree eval_text)

text \<open>
  The theorem at the cell that links one job twice: two links match, one record is
  returned.
\<close>

theorem email_parsers_emit_each_url_once_witness:
  "length (find_all_a re_linkedin repeated_link_doc) = 2 \<and>
   length (parse_linkedin_jobs (parsed_as repeated_link_doc) [] (u ''2024-01-05'')) = 1 \<and>
   distinct (map url (parse_linkedin_jobs (parsed_as repeated_link_doc) [] (u ''2024-01-05'')))"
proof -
  let ?jobs = "parse_linkedin_jobs (parsed_as repeated_link_doc) [] (u ''2024-01-05'')"
  have "length (map url ?jobs) = 1"
    by (simp only: example_repeated_link) simp
  then have "length ?jobs = 1" by simp
  then show ?thesis
    using email_parsers_emit_each_url_once
      [of "parsed_as repeated_link_doc" "[]" "u ''2024-01-05''"] example_repeated_link
    by blast
qed

section \<open>The title of a feed item\<close>










section \<open>The lookback window of the feed scan\<close>

text \<open>
  What the date check does: an item whose \<open>pubDate\<close> parses to a naive date before the
  cutoff is skipped.
\<close>

lemma wwr_item_old_naive_skipped:
  assumes "elem_find item (u ''pubDate'') = Some e" and "elem_text e = Some t" and "t \<noteq> []"
    and "parsedate_to_datetime lib t = Some (Naive p)"
    and "p < now - timedelta_days days_back"
  shows "wwr_item lib now (Naive (now - timedelta_days days_back)) item = None"
  using assms by (simp add: wwr_item_def wwr_pub_date_def Let_def)

text \<open>
  An item whose \<open>title\<close> (or \<open>link\<close>) element has no child element is skipped, whatever
  its date: the truth value of such an element is false.
\<close>

lemma wwr_item_plain_title_skipped:
  assumes "elem_find item (u ''title'') = Some (Element t x []) \<or>
           elem_find item (u ''link'') = Some (Element t x [])"
  shows "wwr_item lib now cutoff item = None"
  using assms by (auto simp: wwr_item_def Let_def)

text \<open>
  An aware date cannot be compared with the naive cutoff: the comparison raises, the
  \<open>except: pass\<close> swallows it, and the item stays, however old. Here the item is ten days
  old and the window is seven days.
\<close>

lemma old_aware_item_kept:
  "map title
     (fetch_wwr_jobs
        (example_lib (rss [nested_item (u ''Sun, 11 Jan 1970 00:00:00 +0000'') []]))
        example_now 7) = [u ''Backend Engineer'']"
  by (simp add: eval_wwr nested_item_def eval_text Let_def)

text \<open>
  Claim C7 on the code: an item inside the window is not included. The item of the
  example was published one day before the scan and the window is seven days, yet the
  scan returns nothing: \<open>not title_elem\<close> is true for a \<open>title\<close> element without child
  elements, so the item is skipped before its date is read.
\<close>

theorem recent_plain_item_is_dropped:
  "fetch_wwr_jobs (example_lib (rss [plain_item])) example_now 7 = []"
  by (simp add: eval_wwr plain_item_def eval_text Let_def)

section \<open>The LinkedIn scenario\<close>

text \<open>
  email_scanner/handler.py splits the text of the cell on the middle dot and returns the
  job of the scenario.
\<close>

lemma handler_scenario_fields:
  "map (\<lambda>j. (title j, company j, location j, source j))
     (handler_parse_linkedin_jobs example_shared (parsed_as scenario_doc) []
        (u ''2024-01-05'')) =
   [(u ''Senior Backend Engineer'', u ''Acme Corp'', u ''Remote'', u ''linkedin'')]"
  by (simp add: handler_parse_linkedin_jobs_def scenario_doc_def parsed_as_def re_linkedin_def
      handler_linkedin_job_def handler_sep_def eval_tree eval_text)

text \<open>
  Claim C8 on the code of local_app.py: for the scenario, \<open>parse_linkedin_jobs\<close> returns
  one job with the title and the source of the claim, but with an empty company and an
  empty location: it splits on the two characters U+00AC U+2211, which the text of the
  cell does not contain.
\<close>

theorem local_scenario_company_empty:
  "map title (parse_linkedin_jobs (parsed_as scenario_doc) [] (u ''2024-01-05'')) =
     [u ''Senior Backend Engineer''] \<and>
   map company (parse_linkedin_jobs (parsed_as scenario_doc) [] (u ''2024-01-05'')) = [[]] \<and>
   map location (parse_linkedin_jobs (parsed_as scenario_doc) [] (u ''2024-01-05'')) = [[]] \<and>
   map source (parse_linkedin_jobs (parsed_as scenario_doc) [] (u ''2024-01-05'')) =
     [u ''linkedin'']"
  by (simp add: parse_linkedin_jobs_def scenario_doc_def parsed_as_def re_linkedin_def
      linkedin_job_def local_sep_def eval_tree eval_text)

section \<open>An unrecognised source\<close>

lemma unregistered_source:
  "s \<notin> fst ` set (PARSER_REGISTRY cls) \<Longrightarrow> get_parser cls s = None"
  by (simp add: get_parser_def map_of_eq_None_iff)

text \<open>
  Claim C5, as stated, fails: \<open>parse_email\<close> raises nothing. For a body without any marker
  and no hint, and for a hint that is not registered, it returns the empty list, the very
  value it returns for a recognised Indeed body in which the parser finds no job.
\<close>

theorem unrecognized_source_counterexample:
  "detect_source (u ''No new jobs today'') = None \<and>
   snd (parse_email example_classes (u ''No new jobs today'') (u ''2024-01-05'') None)
     \<noteq> Raises UnrecognizedSource \<and>
   snd (parse_email example_classes (u ''No new jobs today'') (u ''2024-01-05'') None)
     = Returns [] \<and>
   snd (parse_email example_classes (u ''No new jobs today'') (u ''2024-01-05'')
          (Some (u ''monster''))) = Returns [] \<and>
   detect_source (u ''see https://www.Indeed.com/viewjob for more'') = Some (u ''indeed'') \<and>
   snd (parse_email example_classes (u ''see https://www.Indeed.com/viewjob for more'')
          (u ''2024-01-05'') None) = Returns []"
  by (simp add: parse_email_def detect_source_def get_parser_def PARSER_REGISTRY_def
      example_classes_def IndeedParser_parse_def empty_doc_def parsed_as_def eval_tree
      eval_text)

text \<open>
  Claim C5, amended. When the caller supplies no source hint and the detector matches no
  marker, or the supplied hint is not a registered source, \<open>parse_email\<close> logs one warning
  and returns the empty list; it raises no error, so the caller gets the same value as
  from a parse that found no job.
\<close>

theorem unrecognized_source_returns_empty:
  assumes "(src = None \<and> detect_source html = None) \<or>
           (\<exists>s. src = Some s \<and> s \<notin> fst ` set (PARSER_REGISTRY cls))"
  shows "snd (parse_email cls html email_dt src) = Returns [] \<and>
         length (fst (parse_email cls html email_dt src)) = 1"
  using assms by (auto simp: parse_email_def unregistered_source)

theorem unrecognized_source_returns_empty_witness:
  "snd (parse_email example_classes (u ''No new jobs today'') (u ''2024-01-05'') None)
     = Returns [] \<and>
   length (fst (parse_email example_classes (u ''No new jobs today'') (u ''2024-01-05'') None))
     = 1"
proof -
  have "detect_source (u ''No new jobs today'') = None"
    by (simp add: detect_source_def eval_text)
  then show ?thesis
    using unrecognized_source_returns_empty
      [of None "u ''No new jobs today''" example_classes "u ''2024-01-05''"]
    by simp
qed

section \<open>The default of an unresolved company\<close>

lemma example_bare_link_company:
  "map company (parse_linkedin_jobs (parsed_as bare_link_doc) [] (u ''2024-01-05'')) = [[]]"
  by (simp add: parse_linkedin_jobs_def bare_link_doc_def parsed_as_def re_linkedin_def
      linkedin_job_def local_sep_def eval_tree eval_text)

text \<open>
  Claim C9, as stated, fails: for a link outside any container, \<open>parse_linkedin_jobs\<close> of
  local_app.py returns a job whose company is the empty string, not \<open>Unknown\<close>.
\<close>

theorem company_default_counterexample:
  "length (parse_linkedin_jobs (parsed_as bare_link_doc) [] (u ''2024-01-05'')) = 1 \<and>
   company (hd (parse_linkedin_jobs (parsed_as bare_link_doc) [] (u ''2024-01-05''))) = [] \<and>
   company (hd (parse_linkedin_jobs (parsed_as bare_link_doc) [] (u ''2024-01-05'')))
     \<noteq> u ''Unknown''"
proof -
  let ?jobs = "parse_linkedin_jobs (parsed_as bare_link_doc) [] (u ''2024-01-05'')"
  have "length (map company ?jobs) = 1"
    by (simp only: example_bare_link_company) simp
  then have len: "length ?jobs = 1" by simp
  have "company (hd ?jobs) = hd (map company ?jobs)"
    using len by (rule hd_map_length_1)
  then have "company (hd ?jobs) = []"
    by (simp only: example_bare_link_company) simp
  with len show ?thesis by (simp add: u_def)
qed

lemma card_job_defaults:
  "(fst (card_fields ft anc) = [] \<longrightarrow> company (card_job base d href ft anc) = u ''Unknown'') \<and>
   (snd (card_fields ft anc) = [] \<longrightarrow>
      location (card_job base d href ft anc) = take 100 (clean_text_field base []))"
  by (simp add: card_job_def Let_def u_def)

lemma IndeedParser_parse_form:
  "j \<in> set (IndeedParser_parse base bs html d) \<Longrightarrow>
   \<exists>href ft anc. j = card_job base d href ft anc"
  unfolding IndeedParser_parse_def Let_def by (blast dest: card_loop_form)

text \<open>
  Claim C9, amended. Every job of \<open>IndeedParser.parse\<close> is built from a link and its card;
  when the scan of the card finds no company, the company of the job is the literal
  \<open>Unknown\<close>, and when it finds no location, the location is what \<open>clean_text_field\<close> makes
  of the empty string (cut to 100 characters). The LinkedIn and Indeed parsers of
  local_app.py and of email_scanner/handler.py have no such default: a job built from a
  link without an enclosing \<open>td\<close>, \<open>div\<close> or \<open>tr\<close> has the empty string as company and as
  location.
\<close>

theorem unresolved_company_and_location:
  "(\<forall>j \<in> set (IndeedParser_parse base bs html d).
      \<exists>href ft anc. j = card_job base d href ft anc) \<and>
   (fst (card_fields ft anc) = [] \<longrightarrow> company (card_job base d href ft anc) = u ''Unknown'') \<and>
   (snd (card_fields ft anc) = [] \<longrightarrow>
      location (card_job base d href ft anc) = take 100 (clean_text_field base [])) \<and>
   (find_parent anc' [u ''td'', u ''div'', u ''tr''] = None \<longrightarrow>
      company (linkedin_job d href' ttl anc') = [] \<and>
      location (linkedin_job d href' ttl anc') = [] \<and>
      company (indeed_job d href' ttl anc') = [] \<and>
      location (indeed_job d href' ttl anc') = [] \<and>
      company (handler_linkedin_job sh d href' ttl anc') = [] \<and>
      location (handler_linkedin_job sh d href' ttl anc') = [] \<and>
      company (handler_indeed_job sh d href' ttl anc') = [] \<and>
      location (handler_indeed_job sh d href' ttl anc') = [])"
proof -
  have legacy: "find_parent anc' [u ''td'', u ''div'', u ''tr''] = None \<longrightarrow>
      company (linkedin_job d href' ttl anc') = [] \<and>
      location (linkedin_job d href' ttl anc') = [] \<and>
      company (indeed_job d href' ttl anc') = [] \<and>
      location (indeed_job d href' ttl anc') = [] \<and>
      company (handler_linkedin_job sh d href' ttl anc') = [] \<and>
      location (handler_linkedin_job sh d href' ttl anc') = [] \<and>
      company (handler_indeed_job sh d href' ttl anc') = [] \<and>
      location (handler_indeed_job sh d href' ttl anc') = []"
    by (simp add: linkedin_job_def indeed_job_def handler_linkedin_job_def
        handler_indeed_job_def Let_def)
  show ?thesis
    using IndeedParser_parse_form [of _ base bs html d] card_job_defaults [of ft anc base d href]
      legacy
    by blast
qed

lemma example_title_only_jobs:
  "IndeedParser_parse example_base (parsed_as indeed_title_only_doc) [] (u ''2024-01-05'') =
     [card_job example_base (u ''2024-01-05'') (u ''https://www.indeed.com/rc/clk?jk=abc123'')
        (u ''Backend Developer'') [title_only_cell, indeed_title_only_doc]]"
  by (simp add: IndeedParser_parse_def indeed_title_only_doc_def title_only_cell_def
      parsed_as_def re_indeed_key_def example_base_def exclude_keywords_def hex_plus_def
      is_hex_lower_def eval_tree eval_text)

lemma example_title_only_fields:
  "card_fields (u ''Backend Developer'') [title_only_cell, indeed_title_only_doc] = ([], [])"
  by (simp add: card_fields_def find_parent_def title_only_cell_def card_lines_def
      scan_card_def rating_dot_def is_digit_def re_rating_def eval_text)

text \<open>
  The theorem at the examples: the Indeed alert whose cell has only the title link gives
  one job with the company \<open>Unknown\<close> and an empty location; the bare LinkedIn link gives
  a job with an empty company and an empty location.
\<close>

theorem unresolved_company_and_location_witness:
  "company (hd (IndeedParser_parse example_base (parsed_as indeed_title_only_doc) []
      (u ''2024-01-05''))) = u ''Unknown'' \<and>
   location (hd (IndeedParser_parse example_base (parsed_as indeed_title_only_doc) []
      (u ''2024-01-05''))) = [] \<and>
   company (linkedin_job (u ''2024-01-05'') (u ''https://www.linkedin.com/comm/jobs/view/7'')
      (u ''Data Engineer'') [bare_link_doc]) = [] \<and>
   location (linkedin_job (u ''2024-01-05'') (u ''https://www.linkedin.com/comm/jobs/view/7'')
      (u ''Data Engineer'') [bare_link_doc]) = []"
proof -
  have none: "find_parent [bare_link_doc] [u ''td'', u ''div'', u ''tr''] = None"
    by (simp add: find_parent_def bare_link_doc_def u_def)
  have clean: "take 100 (clean_text_field example_base []) = []"
    by (simp add: example_base_def py_split_ws_def py_join_def)
  show ?thesis
    using unresolved_company_and_location
      [of example_base "parsed_as indeed_title_only_doc" "[]" "u ''2024-01-05''"
        "u ''Backend Developer''" "[title_only_cell, indeed_title_only_doc]"
        "u ''https://www.indeed.com/rc/clk?jk=abc123''" "[bare_link_doc]"
        "u ''https://www.linkedin.com/comm/jobs/view/7''" "u ''Data Engineer''"]
      none clean
    by (simp add: example_title_only_jobs example_title_only_fields)
qed

end
